theory Spec2Isabelle
  imports Main "HOL-Library.Product_Lexorder"
begin

section \<open>Data model\<close>

text \<open>
  The grid layout library keeps a layout as an ordered array of items. Grid
  coordinates and sizes are JavaScript numbers holding integers; they are
  modelled as \<open>int\<close>, so that a west or north resize may propose a negative
  coordinate exactly as the arithmetic of the source does. Optional fields
  (\<open>minW?\<close>, \<open>isDraggable?\<close>, ...) are options; \<open>static\<close> and \<open>moved\<close> are
  only ever tested for truthiness, so an absent flag is \<open>False\<close>. The field
  names carry the prefix \<open>li_\<close> where the source uses the single letters
  \<open>i, x, y, w, h\<close>.
\<close>

datatype ResizeHandleAxis = HS | HW | HE | HN | HSW | HNW | HSE | HNE

record LayoutItem =
  li_i :: string
  li_x :: int
  li_y :: int
  li_w :: int
  li_h :: int
  minW :: "int option"
  minH :: "int option"
  maxW :: "int option"
  maxH :: "int option"
  static :: bool
  isDraggable :: "bool option"
  isResizable :: "bool option"
  resizeHandles :: "ResizeHandleAxis list option"
  moved :: bool

type_synonym Layout = "LayoutItem list"

record DragConfig =
  drag_enabled :: bool

record ResizeConfig =
  resize_enabled :: bool

section \<open>GridLayout.vue: per-item policy and resize anchoring\<close>

text \<open>
  \<open>isItemDraggable\<close> and \<open>isItemResizable\<close> of GridLayout.vue. The component
  reads \<open>dragConfig.value.enabled\<close> and \<open>resizeConfig.value.enabled\<close> from its
  resolved configuration; here the configuration is an argument.
\<close>

definition isItemDraggable :: "DragConfig \<Rightarrow> LayoutItem \<Rightarrow> bool" where
  "isItemDraggable dragConfig item =
     (if static item then False
      else case isDraggable item of
             Some b \<Rightarrow> b
           | None \<Rightarrow> drag_enabled dragConfig)"

definition isItemResizable :: "ResizeConfig \<Rightarrow> LayoutItem \<Rightarrow> bool" where
  "isItemResizable resizeConfig item =
     (if static item then False
      else case isResizable item of
             Some b \<Rightarrow> b
           | None \<Rightarrow> resize_enabled resizeConfig)"

text \<open>
  \<open>calculateResizePosition\<close> of GridLayout.vue. Both results start out
  \<open>undefined\<close> (\<open>None\<close>); the west handles set \<open>x\<close>, the north handles set \<open>y\<close>.
\<close>

definition westHandle :: "ResizeHandleAxis \<Rightarrow> bool" where
  "westHandle handle = (handle = HW \<or> handle = HNW \<or> handle = HSW)"

definition northHandle :: "ResizeHandleAxis \<Rightarrow> bool" where
  "northHandle handle = (handle = HN \<or> handle = HNW \<or> handle = HNE)"

definition calculateResizePosition ::
  "LayoutItem \<Rightarrow> int \<Rightarrow> int \<Rightarrow> ResizeHandleAxis \<Rightarrow> int option \<times> int option" where
  "calculateResizePosition item newW newH handle =
     (let x = (if westHandle handle
               then (let deltaW = newW - li_w item in Some (li_x item - deltaW))
               else None);
          y = (if northHandle handle
               then (let deltaH = newH - li_h item in Some (li_y item - deltaH))
               else None)
      in (x, y))"

section \<open>Core layout engine, modelled from the specification\<close>

text \<open>
  The files of \<open>src/core\<close> (collision, sort, layout, compactors, responsive)
  are imported by the components and composables but are not part of the
  sources at hand. What the claims need of them is modelled from the
  specification, each definition saying so.
\<close>

datatype CompactType = Vertical | Horizontal

text \<open>
  Modelled from the spec: \<open>collides\<close> of core/collision is missing. Section
  4.1: an axis-aligned overlap test over the half-open intervals
  \<open>[x, x+w)\<close> and \<open>[y, y+h)\<close>; adjacent edges do not collide and an item
  without area collides with nothing.
\<close>

definition intervalsOverlap :: "int \<Rightarrow> int \<Rightarrow> int \<Rightarrow> int \<Rightarrow> bool" where
  "intervalsOverlap a1 s1 a2 s2 = (max a1 a2 < min (a1 + s1) (a2 + s2))"

definition collides :: "LayoutItem \<Rightarrow> LayoutItem \<Rightarrow> bool" where
  "collides a b =
     (intervalsOverlap (li_x a) (li_w a) (li_x b) (li_w b) \<and>
      intervalsOverlap (li_y a) (li_h a) (li_y b) (li_h b))"

text \<open>
  Modelled from the spec: \<open>getFirstCollision\<close> of core/collision is missing.
  Section 4.1: scans the layout in order and returns the first other item
  (by id, excluding the item itself) whose box overlaps.
\<close>

definition getFirstCollision :: "Layout \<Rightarrow> LayoutItem \<Rightarrow> LayoutItem option" where
  "getFirstCollision layout item =
     find (\<lambda>l. li_i l \<noteq> li_i item \<and> collides l item) layout"

text \<open>
  Modelled from the spec: \<open>getLayoutItem\<close> of core/layout is missing. Section
  7: a lookup by item id whose result may be "not found"; ids are unique in
  a layout, the first match is returned.
\<close>

definition getLayoutItem :: "Layout \<Rightarrow> string \<Rightarrow> LayoutItem option" where
  "getLayoutItem layout ident = find (\<lambda>l. li_i l = ident) layout"

text \<open>
  \<open>cloneLayout\<close> and \<open>cloneLayoutItem\<close> copy a value; layouts are values
  here, so a clone is the layout itself.
\<close>

definition cloneLayoutItem :: "LayoutItem \<Rightarrow> LayoutItem" where
  "cloneLayoutItem l = l"

definition cloneLayout :: "Layout \<Rightarrow> Layout" where
  "cloneLayout layout = map cloneLayoutItem layout"

text \<open>
  Modelled from the spec: \<open>clamp\<close> of core/calculate is missing. Section 4.5:
  \<open>clamp(value, min, max)\<close>.
\<close>

definition clamp :: "int \<Rightarrow> int \<Rightarrow> int \<Rightarrow> int" where
  "clamp v lo hi = max (min v hi) lo"

text \<open>
  Modelled from the spec: \<open>correctBounds\<close> of core/layout is missing. Section
  4.4: every item has \<open>w\<close> clamped to \<open>[1, cols]\<close>, \<open>h\<close> raised to at least
  \<open>1\<close> and \<open>x\<close> clamped to \<open>[0, cols - w]\<close>; static items are corrected
  against the grid bounds like all others and never against occupancy.
\<close>

definition correctItem :: "int \<Rightarrow> LayoutItem \<Rightarrow> LayoutItem" where
  "correctItem cols l =
     (let w' = clamp (li_w l) 1 cols;
          h' = max 1 (li_h l);
          x' = clamp (li_x l) 0 (cols - w')
      in l\<lparr>li_x := x', li_w := w', li_h := h'\<rparr>)"

definition correctBounds :: "Layout \<Rightarrow> int \<Rightarrow> Layout" where
  "correctBounds layout cols = map (correctItem cols) layout"

subsection \<open>Compactor\<close>

text \<open>
  Position, extent and sort key of an item along the compaction axis:
  \<open>y\<close>, \<open>h\<close> and \<open>(y, x)\<close> for vertical compaction, \<open>x\<close>, \<open>w\<close> and \<open>(x, y)\<close>
  for horizontal compaction.
\<close>

fun axisPos :: "CompactType \<Rightarrow> LayoutItem \<Rightarrow> int" where
  "axisPos Vertical l = li_y l"
| "axisPos Horizontal l = li_x l"

fun axisSize :: "CompactType \<Rightarrow> LayoutItem \<Rightarrow> int" where
  "axisSize Vertical l = li_h l"
| "axisSize Horizontal l = li_w l"

fun setAxisPos :: "CompactType \<Rightarrow> int \<Rightarrow> LayoutItem \<Rightarrow> LayoutItem" where
  "setAxisPos Vertical v l = l\<lparr>li_y := v\<rparr>"
| "setAxisPos Horizontal v l = l\<lparr>li_x := v\<rparr>"

fun sortKey :: "CompactType \<Rightarrow> LayoutItem \<Rightarrow> int \<times> int" where
  "sortKey Vertical l = (li_y l, li_x l)"
| "sortKey Horizontal l = (li_x l, li_y l)"

text \<open>
  Modelled from the spec: the sort of core/sort is missing. Section 4.2: a
  stable ascending sort by the key of the axis. The sort yields the array
  indices in processing order, so that every result can be written back to
  the place of its item.
\<close>

definition sortedIndices :: "CompactType \<Rightarrow> Layout \<Rightarrow> nat list" where
  "sortedIndices ax layout =
     sort_key (\<lambda>k. sortKey ax (layout ! k)) [0..<length layout]"

text \<open>
  Modelled from the spec: the item compaction of core/compactors is missing.
  Section 4.2: the item moves toward the origin of the axis one unit at a
  time until it meets a placed item or reaches the grid edge, and is then
  placed at the trailing edge of the obstacle. The first loop steps while
  the item is beyond the origin and free of collisions; the second loop
  puts it behind each obstacle it overlaps, until none is left.
\<close>

function moveToOrigin :: "CompactType \<Rightarrow> Layout \<Rightarrow> LayoutItem \<Rightarrow> LayoutItem" where
  "moveToOrigin ax compareWith l =
     (if 0 < axisPos ax l \<and> getFirstCollision compareWith l = None
      then moveToOrigin ax compareWith (setAxisPos ax (axisPos ax l - 1) l)
      else l)"
  by pat_completeness auto
termination
  by (relation "measure (\<lambda>(ax, compareWith, l). nat (axisPos ax l))")
     (auto, case_tac ax, auto)

function resolveCollisions :: "CompactType \<Rightarrow> Layout \<Rightarrow> LayoutItem \<Rightarrow> LayoutItem" where
  "resolveCollisions ax compareWith l =
     (case getFirstCollision compareWith l of
        None \<Rightarrow> l
      | Some c \<Rightarrow>
          resolveCollisions ax compareWith
            (setAxisPos ax (axisPos ax c + axisSize ax c) l))"
  by pat_completeness auto
termination
proof (relation "measure (\<lambda>(ax, compareWith, l).
         length (filter (\<lambda>c. axisPos ax l < axisPos ax c + axisSize ax c) compareWith))")
  show "wf (measure (\<lambda>(ax, compareWith, l).
         length (filter (\<lambda>c. axisPos ax l < axisPos ax c + axisSize ax c) compareWith)))"
    by simp
next
  fix ax :: CompactType and compareWith :: Layout and l c :: LayoutItem
  assume fc: "getFirstCollision compareWith l = Some c"
  let ?P = "\<lambda>c'. axisPos ax l < axisPos ax c' + axisSize ax c'"
  let ?l' = "setAxisPos ax (axisPos ax c + axisSize ax c) l"
  let ?Q = "\<lambda>c'. axisPos ax ?l' < axisPos ax c' + axisSize ax c'"
  from fc have mem: "c \<in> set compareWith" and col: "collides c l"
    by (auto simp: getFirstCollision_def find_Some_iff)
  from col have before: "?P c"
    by (cases ax) (auto simp: collides_def intervalsOverlap_def)
  have pos': "axisPos ax ?l' = axisPos ax c + axisSize ax c"
    by (cases ax) auto
  have imp: "\<And>c'. ?Q c' \<Longrightarrow> ?P c'"
    using before pos' by simp
  have "filter ?Q compareWith = filter ?Q (filter ?P compareWith)"
    unfolding filter_filter by (rule filter_cong[OF refl]) (use imp in blast)
  moreover have "c \<in> set (filter ?P compareWith)" using mem before by simp
  moreover have "\<not> ?Q c" using pos' by simp
  ultimately have "length (filter ?Q compareWith) < length (filter ?P compareWith)"
    using length_filter_less[of c "filter ?P compareWith" ?Q] by simp
  then show "((ax, compareWith, ?l'), (ax, compareWith, l)) \<in> measure (\<lambda>(ax, compareWith, l).
         length (filter (\<lambda>c. axisPos ax l < axisPos ax c + axisSize ax c) compareWith))"
    by simp
qed

definition compactItem :: "CompactType \<Rightarrow> Layout \<Rightarrow> LayoutItem \<Rightarrow> LayoutItem" where
  "compactItem ax compareWith l =
     resolveCollisions ax compareWith (moveToOrigin ax compareWith l)"

text \<open>
  Modelled from the spec: \<open>compact\<close> of the vertical and horizontal
  compactors of core/compactors is missing. Sections 4.2 and 5: the
  \<open>moved\<close> flag is reset at the start of the call; the placed items are the
  static items and the items compacted so far; the items are visited in
  sorted order, a static item keeps its place, any other item is compacted
  against the placed items and joins them. Each result is written to the
  array index of its item, so the layout keeps its order.
\<close>

definition resetMoved :: "LayoutItem \<Rightarrow> LayoutItem" where
  "resetMoved l = l\<lparr>moved := False\<rparr>"

definition compactStep ::
  "CompactType \<Rightarrow> Layout \<Rightarrow> Layout \<times> Layout \<Rightarrow> nat \<Rightarrow> Layout \<times> Layout" where
  "compactStep ax layout st k =
     (let compareWith = fst st; out = snd st; l = layout ! k
      in if static l then (compareWith, out[k := l])
         else (let l' = compactItem ax compareWith l
               in (compareWith @ [l'], out[k := l'])))"

definition compactSorted :: "CompactType \<Rightarrow> Layout \<Rightarrow> Layout" where
  "compactSorted ax layout =
     (let layout0 = map resetMoved layout;
          compareWith = filter static layout0
      in snd (foldl (compactStep ax layout0) (compareWith, layout0)
                (sortedIndices ax layout0)))"

text \<open>
  Modelled from the spec: the "allow overlap" variants of core/compactors
  are missing. Section 4.2: they skip the obstacle check and only clamp the
  item to the axis origin and bound. The bound of the horizontal axis is
  \<open>cols - w\<close>; rows are unbounded.
\<close>

fun clampToAxis :: "CompactType \<Rightarrow> int \<Rightarrow> LayoutItem \<Rightarrow> LayoutItem" where
  "clampToAxis Vertical cols l = l\<lparr>li_y := max (li_y l) 0\<rparr>"
| "clampToAxis Horizontal cols l = l\<lparr>li_x := clamp (li_x l) 0 (cols - li_w l)\<rparr>"

definition compactOverlap :: "CompactType \<Rightarrow> Layout \<Rightarrow> int \<Rightarrow> Layout" where
  "compactOverlap ax layout cols =
     map (\<lambda>l. if static l then resetMoved l else clampToAxis ax cols (resetMoved l)) layout"

text \<open>
  The compaction strategy: the type is \<open>"vertical"\<close>, \<open>"horizontal"\<close> or
  \<open>null\<close> (no compaction, \<open>None\<close>), each with an overlap toggle. Without a type
  the layout is returned as it is.
\<close>

definition compactWith :: "CompactType option \<Rightarrow> bool \<Rightarrow> Layout \<Rightarrow> int \<Rightarrow> Layout" where
  "compactWith ty overlap layout cols =
     (case ty of
        None \<Rightarrow> layout
      | Some ax \<Rightarrow> if overlap then compactOverlap ax layout cols
                  else compactSorted ax layout)"

text \<open>
  The \<open>Compactor\<close> interface as the components use it: \<open>type\<close>,
  \<open>allowOverlap\<close>, the optional \<open>preventCollision\<close> and the method
  \<open>compact(layout, cols)\<close>.
\<close>

record Compactor =
  ctype :: "CompactType option"
  allowOverlap :: bool
  preventCollision :: "bool option"
  compact :: "Layout \<Rightarrow> int \<Rightarrow> Layout"

definition mkCompactor :: "CompactType option \<Rightarrow> bool \<Rightarrow> Compactor" where
  "mkCompactor ty overlap =
     \<lparr>ctype = ty, allowOverlap = overlap, preventCollision = None,
      compact = compactWith ty overlap\<rparr>"

definition verticalCompactor :: Compactor where
  "verticalCompactor = mkCompactor (Some Vertical) False"


definition noCompactor :: Compactor where
  "noCompactor = mkCompactor None False"

definition verticalOverlapCompactor :: Compactor where
  "verticalOverlapCompactor = mkCompactor (Some Vertical) True"

definition horizontalOverlapCompactor :: Compactor where
  "horizontalOverlapCompactor = mkCompactor (Some Horizontal) True"

definition noOverlapCompactor :: Compactor where
  "noOverlapCompactor = mkCompactor None True"

subsection \<open>Responsive resolver\<close>

text \<open>
  A breakpoint table is a JavaScript object from breakpoint names to numbers
  (min-widths, or column counts); it is an association list in the order of
  its keys. Widths are compared only, and are integers here.
\<close>

type_synonym Breakpoints = "(string \<times> int) list"

datatype error = NoBreakpoints | MissingCols string

text \<open>
  Modelled from the spec: \<open>getBreakpointFromWidth\<close> of core/responsive is
  missing. Section 4.7: among the breakpoints whose min-width is at most the
  target width, the one with the largest min-width; if none qualifies, the
  breakpoint with the smallest min-width. Section 7: a configuration without
  breakpoints is surfaced to the caller.
\<close>

fun largestOf :: "string \<times> int \<Rightarrow> (string \<times> int) list \<Rightarrow> string \<times> int" where
  "largestOf best [] = best"
| "largestOf best (bp # bps) = largestOf (if snd best < snd bp then bp else best) bps"

fun smallestOf :: "string \<times> int \<Rightarrow> (string \<times> int) list \<Rightarrow> string \<times> int" where
  "smallestOf best [] = best"
| "smallestOf best (bp # bps) = smallestOf (if snd bp < snd best then bp else best) bps"

definition getBreakpointFromWidth :: "Breakpoints \<Rightarrow> int \<Rightarrow> error + string" where
  "getBreakpointFromWidth breakpoints width =
     (case breakpoints of
        [] \<Rightarrow> Inl NoBreakpoints
      | first # others \<Rightarrow>
          (case filter (\<lambda>bp. snd bp \<le> width) breakpoints of
             [] \<Rightarrow> Inr (fst (smallestOf first others))
           | q # qs \<Rightarrow> Inr (fst (largestOf q qs))))"

text \<open>
  Modelled from the spec: \<open>getColsFromBreakpoint\<close> of core/responsive is
  missing. Glossary: a breakpoint is mapped to a column count; a breakpoint
  without one is a malformed configuration (section 7).
\<close>

definition getColsFromBreakpoint :: "string \<Rightarrow> Breakpoints \<Rightarrow> error + int" where
  "getColsFromBreakpoint breakpoint cols =
     (case map_of cols breakpoint of
        None \<Rightarrow> Inl (MissingCols breakpoint)
      | Some c \<Rightarrow> Inr c)"

text \<open>
  \<open>deepEqual\<close> of fast-equals on two breakpoint tables: the same keys with
  the same values, in any order.
\<close>

definition deepEqualTable :: "Breakpoints \<Rightarrow> Breakpoints \<Rightarrow> bool" where
  "deepEqualTable a b =
     (length a = length b \<and> list_all (\<lambda>kv. map_of b (fst kv) = Some (snd kv)) a)"

section \<open>Functions of the core taken as parameters\<close>

text \<open>
  \<open>moveElement\<close>, \<open>resizeElement\<close> (core/layout) and
  \<open>findOrGenerateResponsiveLayout\<close> (core/responsive) are called by the
  components and composables and are not among the sources. The handlers
  below take them as arguments, with the argument lists of their call sites.
\<close>

type_synonym ResponsiveLayouts = "string \<rightharpoonup> Layout"

record Core =
  moveElement ::
    "Layout \<Rightarrow> LayoutItem \<Rightarrow> int \<Rightarrow> int \<Rightarrow> bool \<Rightarrow> bool \<Rightarrow> CompactType option \<Rightarrow> int \<Rightarrow> bool \<Rightarrow> Layout"
  resizeElement ::
    "Layout \<Rightarrow> LayoutItem \<Rightarrow> int \<Rightarrow> int \<Rightarrow> int option \<Rightarrow> int option \<Rightarrow> bool \<Rightarrow> bool \<Rightarrow>
     CompactType option \<Rightarrow> int \<Rightarrow> bool \<Rightarrow> Layout"
  findOrGenerateResponsiveLayout ::
    "ResponsiveLayouts \<Rightarrow> Breakpoints \<Rightarrow> string \<Rightarrow> string \<Rightarrow> int \<Rightarrow> Compactor \<Rightarrow> Layout"

section \<open>GridLayout.vue: drag and resize handlers\<close>

text \<open>
  The placeholder of the component is the object \<open>{w, h, x, y, i}\<close>. During
  a drag it is rebuilt as \<open>{...activeDrag, x, y}\<close>; spreading \<open>null\<close>
  contributes no field, so \<open>i\<close>, \<open>w\<close> and \<open>h\<close> may be absent.
\<close>

record ActiveDrag =
  ad_i :: "string option"
  ad_x :: int
  ad_y :: int
  ad_w :: "int option"
  ad_h :: "int option"

datatype EventName = DragStart | Drag | DragStop | ResizeStart | Resize | ResizeStop

text \<open>
  What the component emits: a drag or resize event with the layout, the old
  item, the new item and the placeholder (the DOM event and node are left
  out), \<open>update:layout\<close> and \<open>layoutChange\<close>.
\<close>

datatype GridEmit =
    EmEvent EventName Layout "LayoutItem option" "LayoutItem option" "ActiveDrag option"
  | EmUpdateLayout Layout
  | EmLayoutChange Layout

record GridLayoutState =
  internalLayout :: Layout
  activeDrag :: "ActiveDrag option"
  resizingItem :: bool
  oldDragItem :: "LayoutItem option"
  oldLayout :: "Layout option"
  isDragging :: bool
  emitted :: "GridEmit list"

text \<open>\<open>effectiveCompactor.value.preventCollision ?? false\<close>.\<close>

definition preventCollisionOf :: "Compactor \<Rightarrow> bool" where
  "preventCollisionOf c = (case preventCollision c of None \<Rightarrow> False | Some b \<Rightarrow> b)"


definition gl_onDragStart ::
  "GridLayoutState \<Rightarrow> string \<Rightarrow> int \<Rightarrow> int \<Rightarrow> GridLayoutState" where
  "gl_onDragStart st i x y =
     (case getLayoutItem (internalLayout st) i of
        None \<Rightarrow> st
      | Some l \<Rightarrow>
          st\<lparr>isDragging := True,
             oldDragItem := Some (cloneLayoutItem l),
             oldLayout := Some (cloneLayout (internalLayout st)),
             activeDrag := Some \<lparr>ad_i = Some i, ad_x = li_x l, ad_y = li_y l,
                                 ad_w = Some (li_w l), ad_h = Some (li_h l)\<rparr>,
             emitted := emitted st @
               [EmEvent DragStart (internalLayout st) (Some l) (Some l) None]\<rparr>)"

definition dragPlaceholder :: "ActiveDrag option \<Rightarrow> int \<Rightarrow> int \<Rightarrow> ActiveDrag" where
  "dragPlaceholder ad x y =
     (case ad of
        None \<Rightarrow> \<lparr>ad_i = None, ad_x = x, ad_y = y, ad_w = None, ad_h = None\<rparr>
      | Some a \<Rightarrow> a\<lparr>ad_x := x, ad_y := y\<rparr>)"

definition gl_onDrag ::
  "Core \<Rightarrow> Compactor \<Rightarrow> int \<Rightarrow> GridLayoutState \<Rightarrow> string \<Rightarrow> int \<Rightarrow> int \<Rightarrow> GridLayoutState" where
  "gl_onDrag core c cols st i x y =
     (case getLayoutItem (internalLayout st) i of
        None \<Rightarrow> st
      | Some l \<Rightarrow>
          (let placeholder = dragPlaceholder (activeDrag st) x y;
               newLayout = moveElement core (internalLayout st) l x y True
                             (preventCollisionOf c) (ctype c) cols (allowOverlap c);
               compacted = compact c newLayout cols
           in st\<lparr>activeDrag := Some placeholder,
                 internalLayout := compacted,
                 emitted := emitted st @
                   [EmEvent Drag compacted (oldDragItem st) (Some l) (Some placeholder)]\<rparr>))"

definition gl_onDragStop ::
  "Core \<Rightarrow> Compactor \<Rightarrow> int \<Rightarrow> GridLayoutState \<Rightarrow> string \<Rightarrow> int \<Rightarrow> int \<Rightarrow> GridLayoutState" where
  "gl_onDragStop core c cols st i x y =
     (case activeDrag st of
        None \<Rightarrow> st
      | Some placeholder \<Rightarrow>
          (case getLayoutItem (internalLayout st) i of
             None \<Rightarrow> st
           | Some l \<Rightarrow>
               (let newLayout = moveElement core (internalLayout st) l x y True
                                  (preventCollisionOf c) (ctype c) cols (allowOverlap c);
                    finalLayout = compact c newLayout cols;
                    changed = (case oldLayout st of
                                 None \<Rightarrow> []
                               | Some old \<Rightarrow>
                                   if old \<noteq> finalLayout
                                   then [EmUpdateLayout finalLayout, EmLayoutChange finalLayout]
                                   else [])
                in st\<lparr>isDragging := False,
                      activeDrag := None,
                      oldDragItem := None,
                      oldLayout := None,
                      internalLayout := finalLayout,
                      emitted := emitted st @
                        [EmEvent DragStop finalLayout (oldDragItem st) (Some l) None] @
                        changed\<rparr>)))"

definition gl_onResizeStart ::
  "GridLayoutState \<Rightarrow> string \<Rightarrow> int \<Rightarrow> int \<Rightarrow> GridLayoutState" where
  "gl_onResizeStart st i w h =
     (case getLayoutItem (internalLayout st) i of
        None \<Rightarrow> st
      | Some l \<Rightarrow>
          st\<lparr>resizingItem := True,
             oldDragItem := Some (cloneLayoutItem l),
             oldLayout := Some (cloneLayout (internalLayout st)),
             emitted := emitted st @
               [EmEvent ResizeStart (internalLayout st) (Some l) (Some l) None]\<rparr>)"

definition gl_resized ::
  "Core \<Rightarrow> Compactor \<Rightarrow> int \<Rightarrow> Layout \<Rightarrow> LayoutItem \<Rightarrow> int \<Rightarrow> int \<Rightarrow> ResizeHandleAxis \<Rightarrow> Layout" where
  "gl_resized core c cols current l w h handle =
     (let xy = calculateResizePosition l w h handle;
          newLayout = resizeElement core current l w h (fst xy) (snd xy) True
                        (preventCollisionOf c) (ctype c) cols (allowOverlap c);
          corrected = correctBounds newLayout cols
      in compact c corrected cols)"

definition gl_onResize ::
  "Core \<Rightarrow> Compactor \<Rightarrow> int \<Rightarrow> GridLayoutState \<Rightarrow> string \<Rightarrow> int \<Rightarrow> int \<Rightarrow> ResizeHandleAxis \<Rightarrow>
   GridLayoutState" where
  "gl_onResize core c cols st i w h handle =
     (case getLayoutItem (internalLayout st) i of
        None \<Rightarrow> st
      | Some l \<Rightarrow>
          (let compacted = gl_resized core c cols (internalLayout st) l w h handle;
               updatedItem = getLayoutItem compacted i
           in st\<lparr>internalLayout := compacted,
                 emitted := emitted st @
                   [EmEvent Resize compacted (oldDragItem st) updatedItem None]\<rparr>))"

definition gl_onResizeStop ::
  "Core \<Rightarrow> Compactor \<Rightarrow> int \<Rightarrow> GridLayoutState \<Rightarrow> string \<Rightarrow> int \<Rightarrow> int \<Rightarrow> ResizeHandleAxis \<Rightarrow>
   GridLayoutState" where
  "gl_onResizeStop core c cols st i w h handle =
     (case getLayoutItem (internalLayout st) i of
        None \<Rightarrow> st
      | Some l \<Rightarrow>
          (let compacted = gl_resized core c cols (internalLayout st) l w h handle;
               updatedItem = getLayoutItem compacted i;
               changed = (case oldLayout st of
                            None \<Rightarrow> []
                          | Some old \<Rightarrow>
                              if old \<noteq> compacted
                              then [EmUpdateLayout compacted, EmLayoutChange compacted]
                              else [])
           in st\<lparr>resizingItem := False,
                 oldDragItem := None,
                 oldLayout := None,
                 internalLayout := compacted,
                 emitted := emitted st @
                   [EmEvent ResizeStop compacted (oldDragItem st) updatedItem None] @
                   changed\<rparr>))"

section \<open>useGridLayout.ts: the layout composable\<close>

record DragState =
  ds_activeDrag :: "LayoutItem option"
  ds_oldDragItem :: "LayoutItem option"
  ds_oldLayout :: "Layout option"

record ResizeState =
  rs_resizing :: bool
  rs_oldResizeItem :: "LayoutItem option"
  rs_oldLayout :: "Layout option"

text \<open>
  The state of one \<open>useGridLayout\<close> instance: the refs \<open>layout\<close>,
  \<open>dragState\<close> and \<open>resizeState\<close>, the closure variables \<open>isDragging\<close>
  and \<open>prevLayout\<close>, and the layouts handed to \<open>onLayoutChange\<close> so far.
  The options \<open>cols\<close>, \<open>preventCollision\<close> and \<open>compactor\<close> are arguments
  of the handlers.
\<close>

record UseGridLayoutState =
  ugl_layout :: Layout
  dragState :: DragState
  resizeState :: ResizeState
  ugl_isDragging :: bool
  prevLayout :: Layout
  notified :: "Layout list"


definition ugl_setLayout ::
  "Compactor \<Rightarrow> int \<Rightarrow> UseGridLayoutState \<Rightarrow> Layout \<Rightarrow> UseGridLayoutState" where
  "ugl_setLayout c cols st newLayout =
     (let corrected = correctBounds (cloneLayout newLayout) cols;
          compacted = compact c corrected cols
      in st\<lparr>ugl_layout := compacted\<rparr>)"

text \<open>
  The watcher on \<open>layout\<close> that notifies \<open>onLayoutChange\<close>: it runs after a
  handler has assigned the layout and compares with \<open>prevLayout\<close> by
  \<open>deepEqual\<close>.
\<close>

definition ugl_layoutWatcher :: "UseGridLayoutState \<Rightarrow> UseGridLayoutState" where
  "ugl_layoutWatcher st =
     (if ugl_layout st \<noteq> prevLayout st
      then st\<lparr>prevLayout := ugl_layout st, notified := notified st @ [ugl_layout st]\<rparr>
      else st)"

definition ugl_onDragStart ::
  "UseGridLayoutState \<Rightarrow> string \<Rightarrow> int \<Rightarrow> int \<Rightarrow> UseGridLayoutState \<times> LayoutItem option" where
  "ugl_onDragStart st itemId x y =
     (case getLayoutItem (ugl_layout st) itemId of
        None \<Rightarrow> (st, None)
      | Some item \<Rightarrow>
          (let placeholder = (cloneLayoutItem item)\<lparr>li_x := x, li_y := y,
                                                     static := False, moved := False\<rparr>
           in (st\<lparr>ugl_isDragging := True,
                   dragState := \<lparr>ds_activeDrag = Some placeholder,
                                  ds_oldDragItem = Some (cloneLayoutItem item),
                                  ds_oldLayout = Some (cloneLayout (ugl_layout st))\<rparr>\<rparr>,
               Some placeholder)))"

definition ugl_onDrag ::
  "Core \<Rightarrow> Compactor \<Rightarrow> int \<Rightarrow> bool \<Rightarrow> UseGridLayoutState \<Rightarrow> string \<Rightarrow> int \<Rightarrow> int \<Rightarrow>
   UseGridLayoutState" where
  "ugl_onDrag core c cols preventColl st itemId x y =
     (case getLayoutItem (ugl_layout st) itemId of
        None \<Rightarrow> st
      | Some item \<Rightarrow>
          (let ds = (case ds_activeDrag (dragState st) of
                       None \<Rightarrow> dragState st
                     | Some a \<Rightarrow> (dragState st)\<lparr>ds_activeDrag := Some (a\<lparr>li_x := x, li_y := y\<rparr>)\<rparr>);
               newLayout = moveElement core (ugl_layout st) item x y True preventColl
                             (ctype c) cols (allowOverlap c);
               compacted = compact c newLayout cols
           in st\<lparr>dragState := ds, ugl_layout := compacted\<rparr>))"

definition ugl_onDragStop ::
  "Core \<Rightarrow> Compactor \<Rightarrow> int \<Rightarrow> bool \<Rightarrow> UseGridLayoutState \<Rightarrow> string \<Rightarrow> int \<Rightarrow> int \<Rightarrow>
   UseGridLayoutState" where
  "ugl_onDragStop core c cols preventColl st itemId x y =
     (case getLayoutItem (ugl_layout st) itemId of
        None \<Rightarrow> st
      | Some item \<Rightarrow>
          (let newLayout = moveElement core (ugl_layout st) item x y True preventColl
                             (ctype c) cols (allowOverlap c);
               compacted = compact c newLayout cols
           in st\<lparr>ugl_isDragging := False,
                 dragState := \<lparr>ds_activeDrag = None, ds_oldDragItem = None,
                                ds_oldLayout = None\<rparr>,
                 ugl_layout := compacted\<rparr>))"

definition ugl_onResizeStart ::
  "UseGridLayoutState \<Rightarrow> string \<Rightarrow> UseGridLayoutState \<times> LayoutItem option" where
  "ugl_onResizeStart st itemId =
     (case getLayoutItem (ugl_layout st) itemId of
        None \<Rightarrow> (st, None)
      | Some item \<Rightarrow>
          (st\<lparr>resizeState := \<lparr>rs_resizing = True,
                                rs_oldResizeItem = Some (cloneLayoutItem item),
                                rs_oldLayout = Some (cloneLayout (ugl_layout st))\<rparr>\<rparr>,
           Some item))"

definition resizeItem :: "int \<Rightarrow> int \<Rightarrow> int option \<Rightarrow> int option \<Rightarrow> LayoutItem \<Rightarrow> LayoutItem" where
  "resizeItem w h x y item =
     (let updated = item\<lparr>li_w := w, li_h := h\<rparr>;
          updated = (case x of None \<Rightarrow> updated | Some x' \<Rightarrow> updated\<lparr>li_x := x'\<rparr>);
          updated = (case y of None \<Rightarrow> updated | Some y' \<Rightarrow> updated\<lparr>li_y := y'\<rparr>)
      in updated)"

definition ugl_onResize ::
  "Compactor \<Rightarrow> int \<Rightarrow> UseGridLayoutState \<Rightarrow> string \<Rightarrow> int \<Rightarrow> int \<Rightarrow> int option \<Rightarrow> int option \<Rightarrow>
   UseGridLayoutState" where
  "ugl_onResize c cols st itemId w h x y =
     (let newLayout = map (\<lambda>item. if li_i item = itemId then resizeItem w h x y item else item)
                        (ugl_layout st);
          corrected = correctBounds newLayout cols;
          compacted = compact c corrected cols
      in st\<lparr>ugl_layout := compacted\<rparr>)"

definition ugl_onResizeStop ::
  "Compactor \<Rightarrow> int \<Rightarrow> UseGridLayoutState \<Rightarrow> string \<Rightarrow> int \<Rightarrow> int \<Rightarrow> UseGridLayoutState" where
  "ugl_onResizeStop c cols st itemId w h =
     (ugl_onResize c cols st itemId w h None None)
       \<lparr>resizeState := \<lparr>rs_resizing = False, rs_oldResizeItem = None, rs_oldLayout = None\<rparr>\<rparr>"

section \<open>useResponsiveLayout: the width watcher\<close>

text \<open>
  The callbacks of the composable that the width watcher invokes:
  \<open>onWidthChange(width, margin, cols, containerPadding)\<close> and
  \<open>onBreakpointChange(breakpoint, cols)\<close>.
\<close>

datatype ResponsiveCallback =
    WidthChange int "int \<times> int" int "(int \<times> int) option"
  | BreakpointChange string int

record UseResponsiveState =
  url_breakpoint :: string
  url_cols :: int
  url_layouts :: ResponsiveLayouts
  url_prevWidth :: int
  url_prevBreakpoint :: string
  url_called :: "ResponsiveCallback list"

text \<open>
  The watcher on \<open>widthRef\<close>. \<open>breakpoints\<close>, \<open>colsConfig\<close> and \<open>compactor\<close>
  are the options of the composable. A breakpoint table that yields no
  breakpoint or no column count ends the callback with an error before any
  state but \<open>prevWidth\<close> is written.
\<close>

definition url_widthWatcher ::
  "Core \<Rightarrow> Compactor \<Rightarrow> Breakpoints \<Rightarrow> Breakpoints \<Rightarrow> UseResponsiveState \<Rightarrow> int \<Rightarrow>
   error + UseResponsiveState" where
  "url_widthWatcher core c breakpoints colsConfig st newWidth =
     (if url_prevWidth st = newWidth then Inr st
      else
        (case getBreakpointFromWidth breakpoints newWidth of
           Inl e \<Rightarrow> Inl e
         | Inr newBreakpoint \<Rightarrow>
             (case getColsFromBreakpoint newBreakpoint colsConfig of
                Inl e \<Rightarrow> Inl e
              | Inr newCols \<Rightarrow>
                  (let st1 = st\<lparr>url_prevWidth := newWidth,
                                 url_called := url_called st @
                                   [WidthChange newWidth (10, 10) newCols None]\<rparr>
                   in if newBreakpoint \<noteq> url_breakpoint st1
                      then
                        (let newLayout = findOrGenerateResponsiveLayout core (url_layouts st1)
                                           breakpoints newBreakpoint (url_breakpoint st1)
                                           newCols c;
                             updatedLayouts = (url_layouts st1)(newBreakpoint \<mapsto> newLayout)
                         in Inr (st1\<lparr>url_layouts := updatedLayouts,
                                      url_breakpoint := newBreakpoint,
                                      url_cols := newCols,
                                      url_called := url_called st1 @
                                        [BreakpointChange newBreakpoint newCols],
                                      url_prevBreakpoint := newBreakpoint\<rparr>))
                      else Inr st1))))"

section \<open>ResponsiveGridLayout: the width and breakpoint watcher\<close>

datatype ResponsiveEmit =
    EmBreakpointChange string int
  | EmLayoutsChange Layout ResponsiveLayouts
  | EmUpdateLayouts ResponsiveLayouts
  | EmWidthChange int "int \<times> int" int "(int \<times> int) option"

record ResponsiveGridState =
  currentBreakpoint :: string
  currentCols :: int
  currentLayout :: Layout
  internalLayouts :: ResponsiveLayouts
  rg_prevWidth :: int
  rg_prevBreakpointProp :: "string option"
  rg_prevBreakpoints :: Breakpoints
  rg_prevColsConfig :: Breakpoints
  rg_emitted :: "ResponsiveEmit list"

text \<open>
  The props the watcher observes (\<open>width\<close>, \<open>breakpoint\<close>, \<open>breakpoints\<close>,
  \<open>cols\<close>) and the two it reads for the \<open>widthChange\<close> event: \<open>margin\<close> and
  \<open>containerPadding\<close>, each already applied to \<open>getIndentationValue\<close>, a
  function of the breakpoint; a \<open>null\<close> padding is \<open>None\<close>.
\<close>

record ResponsiveProps =
  p_width :: int
  p_breakpoint :: "string option"
  p_breakpoints :: Breakpoints
  p_cols :: Breakpoints
  p_margin :: "string \<Rightarrow> int \<times> int"
  p_containerPadding :: "(string \<Rightarrow> int \<times> int) option"

text \<open>The body of the branch "Breakpoint change" of the watcher.\<close>

definition rg_breakpointChange ::
  "Core \<Rightarrow> Compactor \<Rightarrow> ResponsiveGridState \<Rightarrow> Breakpoints \<Rightarrow> string \<Rightarrow> int \<Rightarrow>
   ResponsiveGridState" where
  "rg_breakpointChange core c st newBreakpoints newBreakpoint newCols =
     (let lastBreakpoint = currentBreakpoint st;
          newLayouts = (case internalLayouts st lastBreakpoint of
                          None \<Rightarrow> (internalLayouts st)
                                      (lastBreakpoint \<mapsto> cloneLayout (currentLayout st))
                        | Some existing \<Rightarrow> internalLayouts st);
          newLayout = findOrGenerateResponsiveLayout core newLayouts newBreakpoints
                        newBreakpoint lastBreakpoint newCols c;
          newLayout = correctBounds newLayout newCols;
          newLayout = compact c newLayout newCols;
          newLayouts = newLayouts(newBreakpoint \<mapsto> newLayout)
      in st\<lparr>currentBreakpoint := newBreakpoint,
            currentCols := newCols,
            currentLayout := newLayout,
            internalLayouts := newLayouts,
            rg_emitted := rg_emitted st @
              [EmBreakpointChange newBreakpoint newCols,
               EmLayoutsChange newLayout newLayouts,
               EmUpdateLayouts newLayouts]\<rparr>)"

definition rg_watcher ::
  "Core \<Rightarrow> Compactor \<Rightarrow> ResponsiveGridState \<Rightarrow> ResponsiveProps \<Rightarrow> error + ResponsiveGridState" where
  "rg_watcher core c st props =
     (let newWidth = p_width props;
          newBreakpointProp = p_breakpoint props;
          newBreakpoints = p_breakpoints props;
          newColsConfig = p_cols props;
          widthChanged = (newWidth \<noteq> rg_prevWidth st);
          breakpointPropChanged = (newBreakpointProp \<noteq> rg_prevBreakpointProp st);
          breakpointsChanged = (\<not> deepEqualTable newBreakpoints (rg_prevBreakpoints st));
          colsChanged = (\<not> deepEqualTable newColsConfig (rg_prevColsConfig st))
      in if widthChanged \<or> breakpointPropChanged \<or> breakpointsChanged \<or> colsChanged
         then
           (case (case newBreakpointProp of
                    Some b \<Rightarrow> Inr b
                  | None \<Rightarrow> getBreakpointFromWidth newBreakpoints newWidth) of
              Inl e \<Rightarrow> Inl e
            | Inr newBreakpoint \<Rightarrow>
                (case getColsFromBreakpoint newBreakpoint newColsConfig of
                   Inl e \<Rightarrow> Inl e
                 | Inr newCols \<Rightarrow>
                     (let lastBreakpoint = currentBreakpoint st;
                          st1 = (if lastBreakpoint \<noteq> newBreakpoint \<or> breakpointsChanged
                                    \<or> colsChanged
                                 then rg_breakpointChange core c st newBreakpoints
                                        newBreakpoint newCols
                                 else st);
                          margin = p_margin props newBreakpoint;
                          padding = (case p_containerPadding props of
                                       None \<Rightarrow> None
                                     | Some f \<Rightarrow> Some (f newBreakpoint))
                      in Inr (st1\<lparr>rg_emitted := rg_emitted st1 @
                                     [EmWidthChange newWidth margin newCols padding],
                                   rg_prevWidth := newWidth,
                                   rg_prevBreakpointProp := newBreakpointProp,
                                   rg_prevBreakpoints := newBreakpoints,
                                   rg_prevColsConfig := newColsConfig\<rparr>))))
         else Inr st)"

section \<open>Notions used in the statements and proofs\<close>






text \<open>
  The layout a drag commits: the output of \<open>moveElement\<close> passed through
  the compactor.
\<close>

definition compactedMove ::
  "Core \<Rightarrow> Compactor \<Rightarrow> int \<Rightarrow> bool \<Rightarrow> Layout \<Rightarrow> LayoutItem \<Rightarrow> int \<Rightarrow> int \<Rightarrow> Layout" where
  "compactedMove core c cols preventColl current l x y =
     compact c (moveElement core current l x y True preventColl (ctype c) cols (allowOverlap c))
       cols"

text \<open>
  The layouts from which the responsive component derives the layout of a
  new breakpoint (the current layout is kept under the last breakpoint when
  nothing is stored for it), and the layout it then commits: the one found
  or generated, passed through \<open>correctBounds\<close> and the compactor with
  the new column count.
\<close>

definition preservedLayouts :: "ResponsiveGridState \<Rightarrow> ResponsiveLayouts" where
  "preservedLayouts st =
     (case internalLayouts st (currentBreakpoint st) of
        None \<Rightarrow> (internalLayouts st)(currentBreakpoint st \<mapsto> cloneLayout (currentLayout st))
      | Some existing \<Rightarrow> internalLayouts st)"

definition normalizedFor ::
  "Core \<Rightarrow> Compactor \<Rightarrow> ResponsiveGridState \<Rightarrow> Breakpoints \<Rightarrow> string \<Rightarrow> int \<Rightarrow> Layout" where
  "normalizedFor core c st newBreakpoints newBreakpoint newCols =
     compact c
       (correctBounds
          (findOrGenerateResponsiveLayout core (preservedLayouts st) newBreakpoints
             newBreakpoint (currentBreakpoint st) newCols c)
          newCols)
       newCols"

section \<open>Example data\<close>

text \<open>
  Concrete items, states and stand-ins for the parameters, at which the
  theorems below are instantiated. \<open>mkItem\<close> builds an item with the optional
  fields absent. The stand-in for \<open>moveElement\<close> puts the item at the
  requested place, the one for \<open>resizeElement\<close> gives it the requested size and
  position, and the one for \<open>findOrGenerateResponsiveLayout\<close> returns the
  stored layout of the breakpoint, or else that of the last breakpoint.
\<close>

definition mkItem :: "string \<Rightarrow> int \<Rightarrow> int \<Rightarrow> int \<Rightarrow> int \<Rightarrow> LayoutItem" where
  "mkItem n x y w h =
     \<lparr>li_i = n, li_x = x, li_y = y, li_w = w, li_h = h,
      minW = None, minH = None, maxW = None, maxH = None, static = False,
      isDraggable = None, isResizable = None, resizeHandles = None, moved = False\<rparr>"

definition exampleCore :: Core where
  "exampleCore =
     \<lparr>moveElement = (\<lambda>layout l x y isUserAction preventColl ty cols overlap.
        map (\<lambda>m. if li_i m = li_i l then m\<lparr>li_x := x, li_y := y, moved := True\<rparr> else m) layout),
      resizeElement = (\<lambda>layout l w h x y isUserAction preventColl ty cols overlap.
        map (\<lambda>m. if li_i m = li_i l then resizeItem w h x y m else m) layout),
      findOrGenerateResponsiveLayout = (\<lambda>layouts breakpoints breakpoint lastBreakpoint cols c.
        case layouts breakpoint of
          Some stored \<Rightarrow> stored
        | None \<Rightarrow> (case layouts lastBreakpoint of Some previous \<Rightarrow> previous | None \<Rightarrow> []))\<rparr>"

definition exampleLayout :: Layout where
  "exampleLayout = [mkItem ''a'' 0 0 2 2, mkItem ''b'' 0 2 2 2]"

definition exampleGridState :: GridLayoutState where
  "exampleGridState =
     \<lparr>internalLayout = exampleLayout, activeDrag = None, resizingItem = False,
      oldDragItem = None, oldLayout = None, isDragging = False, emitted = []\<rparr>"

definition exampleDraggingState :: GridLayoutState where
  "exampleDraggingState = gl_onDragStart exampleGridState ''a'' 0 0"

definition exampleUglState :: UseGridLayoutState where
  "exampleUglState =
     \<lparr>ugl_layout = exampleLayout,
      dragState = \<lparr>ds_activeDrag = None, ds_oldDragItem = None, ds_oldLayout = None\<rparr>,
      resizeState = \<lparr>rs_resizing = False, rs_oldResizeItem = None, rs_oldLayout = None\<rparr>,
      ugl_isDragging = False, prevLayout = exampleLayout, notified = []\<rparr>"

definition exampleBreakpoints :: Breakpoints where
  "exampleBreakpoints = [(''lg'', 1200), (''md'', 996), (''sm'', 768)]"

definition exampleCols :: Breakpoints where
  "exampleCols = [(''lg'', 12), (''md'', 10), (''sm'', 6)]"

definition exampleResponsiveState :: UseResponsiveState where
  "exampleResponsiveState =
     \<lparr>url_breakpoint = ''lg'', url_cols = 12,
      url_layouts = Map.empty(''lg'' \<mapsto> exampleLayout),
      url_prevWidth = 1280, url_prevBreakpoint = ''lg'', url_called = []\<rparr>"

definition exampleResponsiveGridState :: ResponsiveGridState where
  "exampleResponsiveGridState =
     \<lparr>currentBreakpoint = ''lg'', currentCols = 12, currentLayout = exampleLayout,
      internalLayouts = Map.empty(''lg'' \<mapsto> exampleLayout),
      rg_prevWidth = 1280, rg_prevBreakpointProp = None,
      rg_prevBreakpoints = exampleBreakpoints, rg_prevColsConfig = exampleCols,
      rg_emitted = []\<rparr>"

definition exampleProps :: "int \<Rightarrow> ResponsiveProps" where
  "exampleProps width =
     \<lparr>p_width = width, p_breakpoint = None, p_breakpoints = exampleBreakpoints,
      p_cols = exampleCols, p_margin = (\<lambda>bp. (10, 10)), p_containerPadding = None\<rparr>"


text \<open>A layout whose only item has a minimum size of two by two.\<close>

definition boundedLayout :: Layout where
  "boundedLayout = [(mkItem ''a'' 0 0 2 2)\<lparr>minW := Some 2, minH := Some 2\<rparr>]"

definition boundedUglState :: UseGridLayoutState where
  "boundedUglState = exampleUglState\<lparr>ugl_layout := boundedLayout, prevLayout := boundedLayout\<rparr>"

declare moveToOrigin.simps [simp del]
declare resolveCollisions.simps [simp del]

section \<open>Collisions and single items\<close>


lemma axisPos_setAxisPos [simp]: "axisPos ax (setAxisPos ax v l) = v"
  by (cases ax) auto

lemma axisSize_setAxisPos [simp]: "axisSize ax (setAxisPos ax v l) = axisSize ax l"
  by (cases ax) auto

lemma li_i_setAxisPos [simp]: "li_i (setAxisPos ax v l) = li_i l"
  by (cases ax) auto

lemma static_setAxisPos [simp]: "static (setAxisPos ax v l) = static l"
  by (cases ax) auto

lemma moved_setAxisPos [simp]: "moved (setAxisPos ax v l) = moved l"
  by (cases ax) auto

lemma setAxisPos_twice [simp]: "setAxisPos ax v (setAxisPos ax u l) = setAxisPos ax v l"
  by (cases ax) auto

lemma setAxisPos_same [simp]: "setAxisPos ax (axisPos ax l) l = l"
  by (cases ax) auto

lemma collides_axisPos_less:
  "collides c l \<Longrightarrow> axisPos ax l < axisPos ax c + axisSize ax c"
  by (cases ax) (auto simp: collides_def intervalsOverlap_def)





lemma moveToOrigin_shape: "\<exists>v. moveToOrigin ax cw l = setAxisPos ax v l"
proof (induction ax cw l rule: moveToOrigin.induct)
  case (1 ax cw l)
  show ?case
  proof (cases "0 < axisPos ax l \<and> getFirstCollision cw l = None")
    case True
    with "1.IH" obtain v where
      "moveToOrigin ax cw (setAxisPos ax (axisPos ax l - 1) l) =
       setAxisPos ax v (setAxisPos ax (axisPos ax l - 1) l)" by blast
    with True show ?thesis by (subst moveToOrigin.simps) auto
  next
    case False
    then have "moveToOrigin ax cw l = l" by (subst moveToOrigin.simps) auto
    then show ?thesis by (metis setAxisPos_same)
  qed
qed


lemma resolveCollisions_shape: "\<exists>v. resolveCollisions ax cw l = setAxisPos ax v l"
proof (induction ax cw l rule: resolveCollisions.induct)
  case (1 ax cw l)
  show ?case
  proof (cases "getFirstCollision cw l")
    case None
    then have "resolveCollisions ax cw l = l" by (subst resolveCollisions.simps) simp
    then show ?thesis by (metis setAxisPos_same)
  next
    case (Some c)
    with "1.IH" obtain v where
      "resolveCollisions ax cw (setAxisPos ax (axisPos ax c + axisSize ax c) l) =
       setAxisPos ax v (setAxisPos ax (axisPos ax c + axisSize ax c) l)" by blast
    with Some show ?thesis by (subst resolveCollisions.simps) auto
  qed
qed



lemma compactItem_shape: "\<exists>v. compactItem ax cw l = setAxisPos ax v l"
proof -
  obtain u where u: "moveToOrigin ax cw l = setAxisPos ax u l"
    using moveToOrigin_shape by blast
  obtain v where "resolveCollisions ax cw (setAxisPos ax u l) = setAxisPos ax v (setAxisPos ax u l)"
    using resolveCollisions_shape by blast
  with u show ?thesis by (auto simp: compactItem_def)
qed




section \<open>Compaction reaches a settled layout and keeps it\<close>








lemma compactItem_static [simp]: "static (compactItem ax cw l) = static l"
  using compactItem_shape[of ax cw l] by auto

lemma compactItem_moved [simp]: "moved (compactItem ax cw l) = moved l"
  using compactItem_shape[of ax cw l] by auto

lemma compactItem_li_i [simp]: "li_i (compactItem ax cw l) = li_i l"
  using compactItem_shape[of ax cw l] by auto











section \<open>Normalizing a normalized layout\<close>















section \<open>Breakpoint selection\<close>

lemma largestOf_mem: "largestOf best bps \<in> set (best # bps)"
  by (induction bps arbitrary: best) auto

lemma largestOf_ge: "bp \<in> set (best # bps) \<Longrightarrow> snd bp \<le> snd (largestOf best bps)"
proof (induction bps arbitrary: best bp)
  case Nil
  then show ?case by simp
next
  case (Cons a bps)
  let ?b = "if snd best < snd a then a else best"
  have step: "largestOf best (a # bps) = largestOf ?b bps" by simp
  have here: "snd ?b \<le> snd (largestOf ?b bps)" by (rule Cons.IH) simp
  from Cons.prems consider "bp = best" | "bp = a" | "bp \<in> set bps" by auto
  then show ?case
  proof cases
    case 1
    then have "snd bp \<le> snd ?b" by simp
    with here show ?thesis unfolding step by linarith
  next
    case 2
    then have "snd bp \<le> snd ?b" by simp
    with here show ?thesis unfolding step by linarith
  next
    case 3
    then have "snd bp \<le> snd (largestOf ?b bps)" by (intro Cons.IH) simp
    then show ?thesis unfolding step .
  qed
qed

lemma smallestOf_mem: "smallestOf best bps \<in> set (best # bps)"
  by (induction bps arbitrary: best) auto

lemma smallestOf_le: "bp \<in> set (best # bps) \<Longrightarrow> snd (smallestOf best bps) \<le> snd bp"
proof (induction bps arbitrary: best bp)
  case Nil
  then show ?case by simp
next
  case (Cons a bps)
  let ?b = "if snd a < snd best then a else best"
  have step: "smallestOf best (a # bps) = smallestOf ?b bps" by simp
  have here: "snd (smallestOf ?b bps) \<le> snd ?b" by (rule Cons.IH) simp
  from Cons.prems consider "bp = best" | "bp = a" | "bp \<in> set bps" by auto
  then show ?case
  proof cases
    case 1
    then have "snd ?b \<le> snd bp" by simp
    with here show ?thesis unfolding step by linarith
  next
    case 2
    then have "snd ?b \<le> snd bp" by simp
    with here show ?thesis unfolding step by linarith
  next
    case 3
    then have "snd (smallestOf ?b bps) \<le> snd bp" by (intro Cons.IH) simp
    then show ?thesis unfolding step .
  qed
qed

lemma getBreakpointFromWidth_qualifying:
  assumes q: "filter (\<lambda>bp. snd bp \<le> width) breakpoints = q # qs"
  shows "\<exists>m. getBreakpointFromWidth breakpoints width = Inr (fst (largestOf q qs)) \<and>
           (fst (largestOf q qs), m) \<in> set breakpoints \<and> m \<le> width \<and>
           (\<forall>bp \<in> set breakpoints. snd bp \<le> width \<longrightarrow> snd bp \<le> m)"
proof -
  let ?r = "largestOf q qs"
  have sub: "set (q # qs) = {bp \<in> set breakpoints. snd bp \<le> width}"
    using q[symmetric] by auto
  have r: "?r \<in> set (q # qs)" by (rule largestOf_mem)
  with sub have rin: "?r \<in> set breakpoints" and rle: "snd ?r \<le> width" by auto
  from q have ne: "breakpoints \<noteq> []" by auto
  then have res: "getBreakpointFromWidth breakpoints width = Inr (fst ?r)"
    using q by (cases breakpoints) (simp_all add: getBreakpointFromWidth_def)
  have best: "\<forall>bp \<in> set breakpoints. snd bp \<le> width \<longrightarrow> snd bp \<le> snd ?r"
  proof (intro ballI impI)
    fix bp assume "bp \<in> set breakpoints" "snd bp \<le> width"
    with sub have "bp \<in> set (q # qs)" by auto
    then show "snd bp \<le> snd ?r" by (rule largestOf_ge)
  qed
  from rin have "(fst ?r, snd ?r) \<in> set breakpoints" by simp
  with res rle best show ?thesis by blast
qed

lemma getBreakpointFromWidth_none_qualifies:
  assumes ne: "breakpoints = first # others"
    and q: "filter (\<lambda>bp. snd bp \<le> width) breakpoints = []"
  shows "\<exists>m. getBreakpointFromWidth breakpoints width = Inr (fst (smallestOf first others)) \<and>
           (fst (smallestOf first others), m) \<in> set breakpoints \<and>
           (\<forall>bp \<in> set breakpoints. m \<le> snd bp)"
proof -
  let ?r = "smallestOf first others"
  have res: "getBreakpointFromWidth breakpoints width = Inr (fst ?r)"
    using q unfolding ne by (simp add: getBreakpointFromWidth_def)
  have rin: "?r \<in> set breakpoints" unfolding ne by (rule smallestOf_mem)
  have "\<forall>bp \<in> set breakpoints. snd ?r \<le> snd bp"
    unfolding ne using smallestOf_le by blast
  moreover from rin have "(fst ?r, snd ?r) \<in> set breakpoints" by simp
  ultimately show ?thesis using res by blast
qed

section \<open>Handlers on a found item\<close>

lemma getLayoutItem_absent:
  "ident \<notin> li_i ` set layout \<Longrightarrow> getLayoutItem layout ident = None"
  by (auto simp: getLayoutItem_def find_None_iff)

lemma gl_onDrag_found:
  assumes "getLayoutItem (internalLayout st) i = Some l"
  shows "gl_onDrag core c cols st i x y =
     st\<lparr>activeDrag := Some (dragPlaceholder (activeDrag st) x y),
        internalLayout := compactedMove core c cols (preventCollisionOf c) (internalLayout st) l x y,
        emitted := emitted st @
          [EmEvent Drag (compactedMove core c cols (preventCollisionOf c) (internalLayout st) l x y)
             (oldDragItem st) (Some l) (Some (dragPlaceholder (activeDrag st) x y))]\<rparr>"
  using assms by (simp add: gl_onDrag_def compactedMove_def Let_def)

lemma gl_onDragStop_found:
  assumes "getLayoutItem (internalLayout st) i = Some l" and "activeDrag st = Some p"
  shows "gl_onDragStop core c cols st i x y =
     st\<lparr>isDragging := False, activeDrag := None, oldDragItem := None, oldLayout := None,
        internalLayout := compactedMove core c cols (preventCollisionOf c) (internalLayout st) l x y,
        emitted := emitted st @
          [EmEvent DragStop
             (compactedMove core c cols (preventCollisionOf c) (internalLayout st) l x y)
             (oldDragItem st) (Some l) None] @
          (case oldLayout st of
             None \<Rightarrow> []
           | Some old \<Rightarrow>
               if old \<noteq> compactedMove core c cols (preventCollisionOf c) (internalLayout st) l x y
               then [EmUpdateLayout
                       (compactedMove core c cols (preventCollisionOf c) (internalLayout st) l x y),
                     EmLayoutChange
                       (compactedMove core c cols (preventCollisionOf c) (internalLayout st) l x y)]
               else [])\<rparr>"
  using assms
  by (cases "oldLayout st") (simp_all add: gl_onDragStop_def compactedMove_def Let_def)

lemma ugl_onDrag_found:
  assumes "getLayoutItem (ugl_layout st) i = Some l"
  shows "ugl_layout (ugl_onDrag core c cols pc st i x y) =
           compactedMove core c cols pc (ugl_layout st) l x y"
  using assms by (simp add: ugl_onDrag_def compactedMove_def Let_def)

lemma ugl_onDragStop_found:
  assumes "getLayoutItem (ugl_layout st) i = Some l"
  shows "ugl_onDragStop core c cols pc st i x y =
     st\<lparr>ugl_isDragging := False,
        dragState := \<lparr>ds_activeDrag = None, ds_oldDragItem = None, ds_oldLayout = None\<rparr>,
        ugl_layout := compactedMove core c cols pc (ugl_layout st) l x y\<rparr>"
  using assms by (simp add: ugl_onDragStop_def compactedMove_def Let_def)

lemma ugl_layoutWatcher_notifies:
  "ugl_layout (ugl_layoutWatcher st) = ugl_layout st \<and>
   (notified (ugl_layoutWatcher st) = notified st \<or>
    notified (ugl_layoutWatcher st) = notified st @ [ugl_layout st])"
  by (simp add: ugl_layoutWatcher_def)

section \<open>Responsive watcher and placeholder independence\<close>

lemma rg_breakpointChange_eq:
  "rg_breakpointChange core c st bps bp n =
     st\<lparr>currentBreakpoint := bp, currentCols := n,
        currentLayout := normalizedFor core c st bps bp n,
        internalLayouts := (preservedLayouts st)(bp \<mapsto> normalizedFor core c st bps bp n),
        rg_emitted := rg_emitted st @
          [EmBreakpointChange bp n,
           EmLayoutsChange (normalizedFor core c st bps bp n)
             ((preservedLayouts st)(bp \<mapsto> normalizedFor core c st bps bp n)),
           EmUpdateLayouts ((preservedLayouts st)(bp \<mapsto> normalizedFor core c st bps bp n))]\<rparr>"
  by (cases "internalLayouts st (currentBreakpoint st)")
     (simp_all add: rg_breakpointChange_def normalizedFor_def preservedLayouts_def Let_def)

lemma rg_watcher_Inr:
  assumes "rg_watcher core c st props = Inr st'"
    and "currentBreakpoint st' \<noteq> currentBreakpoint st"
  shows "\<exists>bp n. st' = (rg_breakpointChange core c st (p_breakpoints props) bp n)
           \<lparr>rg_emitted := rg_emitted (rg_breakpointChange core c st (p_breakpoints props) bp n) @
              [EmWidthChange (p_width props) (p_margin props bp) n
                 (case p_containerPadding props of None \<Rightarrow> None | Some f \<Rightarrow> Some (f bp))],
            rg_prevWidth := p_width props,
            rg_prevBreakpointProp := p_breakpoint props,
            rg_prevBreakpoints := p_breakpoints props,
            rg_prevColsConfig := p_cols props\<rparr>"
  using assms
  by (auto simp: rg_watcher_def Let_def split: if_splits sum.splits option.splits)

lemma rg_watcher_example:
  "rg_watcher exampleCore verticalCompactor exampleResponsiveGridState (exampleProps 800) =
     Inr ((rg_breakpointChange exampleCore verticalCompactor exampleResponsiveGridState
             exampleBreakpoints ''sm'' 6)
          \<lparr>rg_emitted := rg_emitted (rg_breakpointChange exampleCore verticalCompactor
                exampleResponsiveGridState exampleBreakpoints ''sm'' 6) @
              [EmWidthChange 800 (10, 10) 6 None],
           rg_prevWidth := 800,
           rg_prevBreakpointProp := None,
           rg_prevBreakpoints := exampleBreakpoints,
           rg_prevColsConfig := exampleCols\<rparr>)"
  by (simp add: rg_watcher_def exampleProps_def exampleResponsiveGridState_def
        exampleBreakpoints_def exampleCols_def getBreakpointFromWidth_def
        getColsFromBreakpoint_def deepEqualTable_def Let_def)

lemma gl_onDragStart_layout: "internalLayout (gl_onDragStart gst i x y) = internalLayout gst"
  by (simp add: gl_onDragStart_def split: option.splits)

lemma gl_onDrag_layout_indep:
  "internalLayout (gl_onDrag core c cols (gst\<lparr>activeDrag := p\<rparr>) i x y) =
   internalLayout (gl_onDrag core c cols gst i x y)"
  by (simp add: gl_onDrag_def Let_def split: option.splits)

lemma gl_onDragStop_layout_indep:
  "activeDrag gst \<noteq> None \<Longrightarrow> p \<noteq> None \<Longrightarrow>
   internalLayout (gl_onDragStop core c cols (gst\<lparr>activeDrag := p\<rparr>) i x y) =
   internalLayout (gl_onDragStop core c cols gst i x y)"
  by (auto simp: gl_onDragStop_def Let_def split: option.splits)

lemma ugl_onDragStart_layout: "ugl_layout (fst (ugl_onDragStart ust i x y)) = ugl_layout ust"
  by (simp add: ugl_onDragStart_def Let_def split: option.splits)

lemma ugl_onDrag_layout_indep:
  "ugl_layout (ugl_onDrag core c cols pc (ust\<lparr>dragState := d\<rparr>) i x y) =
   ugl_layout (ugl_onDrag core c cols pc ust i x y)"
  by (simp add: ugl_onDrag_def Let_def split: option.splits)

lemma ugl_onDragStop_layout_indep:
  "ugl_layout (ugl_onDragStop core c cols pc (ust\<lparr>dragState := d\<rparr>) i x y) =
   ugl_layout (ugl_onDragStop core c cols pc ust i x y)"
  by (simp add: ugl_onDragStop_def Let_def split: option.splits)

section \<open>Claims\<close>




text \<open>
  Claim C2. For a breakpoint table that is not empty, \<open>getBreakpointFromWidth\<close>
  returns a breakpoint of the table: when some min-width is at most the
  target width, the returned one qualifies and no qualifying min-width is
  larger; when none qualifies, no min-width of the table is smaller than the
  returned one. For \<open>{lg: 1200, md: 996, sm: 768}\<close> and width \<open>800\<close> the
  result is \<open>"sm"\<close>.
\<close>

theorem getBreakpointFromWidth_largest_qualifying:
  "(breakpoints \<noteq> [] \<longrightarrow>
      (\<exists>b m. getBreakpointFromWidth breakpoints width = Inr b \<and> (b, m) \<in> set breakpoints \<and>
         (if \<exists>bp \<in> set breakpoints. snd bp \<le> width
          then m \<le> width \<and> (\<forall>bp \<in> set breakpoints. snd bp \<le> width \<longrightarrow> snd bp \<le> m)
          else (\<forall>bp \<in> set breakpoints. m \<le> snd bp)))) \<and>
   getBreakpointFromWidth [(''lg'', 1200), (''md'', 996), (''sm'', 768)] 800 = Inr ''sm''"
proof (intro conjI impI)
  assume ne: "breakpoints \<noteq> []"
  then obtain first others where fo: "breakpoints = first # others"
    by (cases breakpoints) auto
  show "\<exists>b m. getBreakpointFromWidth breakpoints width = Inr b \<and> (b, m) \<in> set breakpoints \<and>
         (if \<exists>bp \<in> set breakpoints. snd bp \<le> width
          then m \<le> width \<and> (\<forall>bp \<in> set breakpoints. snd bp \<le> width \<longrightarrow> snd bp \<le> m)
          else (\<forall>bp \<in> set breakpoints. m \<le> snd bp))"
  proof (cases "filter (\<lambda>bp. snd bp \<le> width) breakpoints")
    case Nil
    then have none: "\<not> (\<exists>bp \<in> set breakpoints. snd bp \<le> width)"
      by (simp add: filter_empty_conv)
    from getBreakpointFromWidth_none_qualifies[OF fo Nil] none show ?thesis by auto
  next
    case (Cons q qs)
    then have "q \<in> set (filter (\<lambda>bp. snd bp \<le> width) breakpoints)" by simp
    then have some: "\<exists>bp \<in> set breakpoints. snd bp \<le> width" by auto
    from getBreakpointFromWidth_qualifying[OF Cons] some show ?thesis by auto
  qed
next
  show "getBreakpointFromWidth [(''lg'', 1200), (''md'', 996), (''sm'', 768)] 800 = Inr ''sm''"
    by (simp add: getBreakpointFromWidth_def)
qed

theorem getBreakpointFromWidth_witness:
  "exampleBreakpoints \<noteq> [] \<and>
   (\<exists>b m. getBreakpointFromWidth exampleBreakpoints 500 = Inr b \<and>
           (b, m) \<in> set exampleBreakpoints \<and>
           (\<forall>bp \<in> set exampleBreakpoints. m \<le> snd bp)) \<and>
   getBreakpointFromWidth exampleBreakpoints 500 = Inr ''sm'' \<and>
   getBreakpointFromWidth exampleBreakpoints 1000 = Inr ''md''"
proof -
  have ne: "exampleBreakpoints \<noteq> []" by (simp add: exampleBreakpoints_def)
  have none: "\<not> (\<exists>bp \<in> set exampleBreakpoints. snd bp \<le> 500)"
    by (simp add: exampleBreakpoints_def)
  from getBreakpointFromWidth_largest_qualifying[of exampleBreakpoints 500] ne none
  have "\<exists>b m. getBreakpointFromWidth exampleBreakpoints 500 = Inr b \<and>
           (b, m) \<in> set exampleBreakpoints \<and>
           (\<forall>bp \<in> set exampleBreakpoints. m \<le> snd bp)" by simp
  moreover have "getBreakpointFromWidth exampleBreakpoints 500 = Inr ''sm''"
    "getBreakpointFromWidth exampleBreakpoints 1000 = Inr ''md''"
    by (simp_all add: getBreakpointFromWidth_def exampleBreakpoints_def)
  ultimately show ?thesis using ne by blast
qed

text \<open>
  Claim C3. When the dragged item is in the layout, a drag update and a drag
  stop commit to state the output of \<open>moveElement\<close> passed through the
  compactor, in the component (which on a stop also requires an active
  placeholder) and in the composable. The component emits \<open>drag\<close> and
  \<open>dragStop\<close> with that layout, and every \<open>update:layout\<close> and
  \<open>layoutChange\<close> of the stop carries it; the layout watcher of the
  composable notifies no other new layout.
\<close>

theorem drag_commits_compacted_move:
  "(getLayoutItem (internalLayout gst) i = Some l \<longrightarrow>
      internalLayout (gl_onDrag core c cols gst i x y) =
        compactedMove core c cols (preventCollisionOf c) (internalLayout gst) l x y \<and>
      emitted (gl_onDrag core c cols gst i x y) =
        emitted gst @
          [EmEvent Drag
             (compactedMove core c cols (preventCollisionOf c) (internalLayout gst) l x y)
             (oldDragItem gst) (Some l) (Some (dragPlaceholder (activeDrag gst) x y))]) \<and>
   (getLayoutItem (internalLayout gst) i = Some l \<and> activeDrag gst \<noteq> None \<longrightarrow>
      internalLayout (gl_onDragStop core c cols gst i x y) =
        compactedMove core c cols (preventCollisionOf c) (internalLayout gst) l x y \<and>
      (\<exists>evs. emitted (gl_onDragStop core c cols gst i x y) =
           emitted gst @
             [EmEvent DragStop
                (compactedMove core c cols (preventCollisionOf c) (internalLayout gst) l x y)
                (oldDragItem gst) (Some l) None] @ evs \<and>
         (\<forall>e \<in> set evs.
            e = EmUpdateLayout
                  (compactedMove core c cols (preventCollisionOf c) (internalLayout gst) l x y) \<or>
            e = EmLayoutChange
                  (compactedMove core c cols (preventCollisionOf c) (internalLayout gst) l x y)))) \<and>
   (getLayoutItem (ugl_layout ust) i = Some m \<longrightarrow>
      ugl_layout (ugl_onDrag core c cols pc ust i x y) =
        compactedMove core c cols pc (ugl_layout ust) m x y \<and>
      ugl_layout (ugl_onDragStop core c cols pc ust i x y) =
        compactedMove core c cols pc (ugl_layout ust) m x y \<and>
      set (notified (ugl_layoutWatcher (ugl_onDrag core c cols pc ust i x y)))
        \<subseteq> set (notified ust) \<union> {compactedMove core c cols pc (ugl_layout ust) m x y} \<and>
      set (notified (ugl_layoutWatcher (ugl_onDragStop core c cols pc ust i x y)))
        \<subseteq> set (notified ust) \<union> {compactedMove core c cols pc (ugl_layout ust) m x y})"
proof (intro conjI impI)
  assume f: "getLayoutItem (internalLayout gst) i = Some l"
  show "internalLayout (gl_onDrag core c cols gst i x y) =
        compactedMove core c cols (preventCollisionOf c) (internalLayout gst) l x y"
    by (simp add: gl_onDrag_found[OF f])
  show "emitted (gl_onDrag core c cols gst i x y) =
        emitted gst @
          [EmEvent Drag
             (compactedMove core c cols (preventCollisionOf c) (internalLayout gst) l x y)
             (oldDragItem gst) (Some l) (Some (dragPlaceholder (activeDrag gst) x y))]"
    by (simp add: gl_onDrag_found[OF f])
next
  assume "getLayoutItem (internalLayout gst) i = Some l \<and> activeDrag gst \<noteq> None"
  then obtain p where f: "getLayoutItem (internalLayout gst) i = Some l"
    and a: "activeDrag gst = Some p" by auto
  show "internalLayout (gl_onDragStop core c cols gst i x y) =
        compactedMove core c cols (preventCollisionOf c) (internalLayout gst) l x y"
    by (simp add: gl_onDragStop_found[OF f a])
  show "\<exists>evs. emitted (gl_onDragStop core c cols gst i x y) =
           emitted gst @
             [EmEvent DragStop
                (compactedMove core c cols (preventCollisionOf c) (internalLayout gst) l x y)
                (oldDragItem gst) (Some l) None] @ evs \<and>
         (\<forall>e \<in> set evs.
            e = EmUpdateLayout
                  (compactedMove core c cols (preventCollisionOf c) (internalLayout gst) l x y) \<or>
            e = EmLayoutChange
                  (compactedMove core c cols (preventCollisionOf c) (internalLayout gst) l x y))"
    by (cases "oldLayout gst") (auto simp: gl_onDragStop_found[OF f a])
next
  assume f: "getLayoutItem (ugl_layout ust) i = Some m"
  show d: "ugl_layout (ugl_onDrag core c cols pc ust i x y) =
        compactedMove core c cols pc (ugl_layout ust) m x y"
    by (rule ugl_onDrag_found[OF f])
  show s: "ugl_layout (ugl_onDragStop core c cols pc ust i x y) =
        compactedMove core c cols pc (ugl_layout ust) m x y"
    by (simp add: ugl_onDragStop_found[OF f])
  have nd: "notified (ugl_onDrag core c cols pc ust i x y) = notified ust"
    using f by (simp add: ugl_onDrag_def Let_def)
  have ns: "notified (ugl_onDragStop core c cols pc ust i x y) = notified ust"
    by (simp add: ugl_onDragStop_found[OF f])
  show "set (notified (ugl_layoutWatcher (ugl_onDrag core c cols pc ust i x y)))
        \<subseteq> set (notified ust) \<union> {compactedMove core c cols pc (ugl_layout ust) m x y}"
    using ugl_layoutWatcher_notifies[of "ugl_onDrag core c cols pc ust i x y"] d nd by auto
  show "set (notified (ugl_layoutWatcher (ugl_onDragStop core c cols pc ust i x y)))
        \<subseteq> set (notified ust) \<union> {compactedMove core c cols pc (ugl_layout ust) m x y}"
    using ugl_layoutWatcher_notifies[of "ugl_onDragStop core c cols pc ust i x y"] s ns by auto
qed

theorem drag_commits_witness:
  "getLayoutItem (internalLayout exampleDraggingState) ''a'' = Some (mkItem ''a'' 0 0 2 2) \<and>
   activeDrag exampleDraggingState \<noteq> None \<and>
   getLayoutItem (ugl_layout exampleUglState) ''a'' = Some (mkItem ''a'' 0 0 2 2) \<and>
   internalLayout (gl_onDrag exampleCore verticalCompactor 12 exampleDraggingState ''a'' 0 5) =
     compactedMove exampleCore verticalCompactor 12 (preventCollisionOf verticalCompactor)
       (internalLayout exampleDraggingState) (mkItem ''a'' 0 0 2 2) 0 5 \<and>
   internalLayout (gl_onDragStop exampleCore verticalCompactor 12 exampleDraggingState ''a'' 0 5) =
     compactedMove exampleCore verticalCompactor 12 (preventCollisionOf verticalCompactor)
       (internalLayout exampleDraggingState) (mkItem ''a'' 0 0 2 2) 0 5 \<and>
   ugl_layout (ugl_onDrag exampleCore verticalCompactor 12 False exampleUglState ''a'' 0 5) =
     compactedMove exampleCore verticalCompactor 12 False (ugl_layout exampleUglState)
       (mkItem ''a'' 0 0 2 2) 0 5 \<and>
   ugl_layout (ugl_onDragStop exampleCore verticalCompactor 12 False exampleUglState ''a'' 0 5) =
     compactedMove exampleCore verticalCompactor 12 False (ugl_layout exampleUglState)
       (mkItem ''a'' 0 0 2 2) 0 5"
proof -
  have g: "getLayoutItem (internalLayout exampleDraggingState) ''a'' = Some (mkItem ''a'' 0 0 2 2)"
    by (simp add: exampleDraggingState_def gl_onDragStart_def exampleGridState_def
          exampleLayout_def getLayoutItem_def mkItem_def)
  have a: "activeDrag exampleDraggingState \<noteq> None"
    by (simp add: exampleDraggingState_def gl_onDragStart_def exampleGridState_def
          exampleLayout_def getLayoutItem_def mkItem_def)
  have u: "getLayoutItem (ugl_layout exampleUglState) ''a'' = Some (mkItem ''a'' 0 0 2 2)"
    by (simp add: exampleUglState_def exampleLayout_def getLayoutItem_def mkItem_def)
  from drag_commits_compacted_move
         [of exampleDraggingState "''a''" "mkItem ''a'' 0 0 2 2" exampleCore verticalCompactor
             12 0 5 exampleUglState "mkItem ''a'' 0 0 2 2" False]
       g a u
  show ?thesis by blast
qed

text \<open>
  Claim C4. For an item id that no item of the current layout has,
  \<open>onDragStart\<close>, \<open>onDrag\<close>, \<open>onDragStop\<close> and \<open>onResizeStart\<close> return
  the state as it is, in the component and in the composable; in the
  composable \<open>onDragStart\<close> and \<open>onResizeStart\<close> return \<open>null\<close>.
\<close>

theorem unknown_item_is_noop:
  "(i \<notin> li_i ` set (internalLayout gst) \<longrightarrow>
      gl_onDragStart gst i x y = gst \<and>
      gl_onDrag core c cols gst i x y = gst \<and>
      gl_onDragStop core c cols gst i x y = gst \<and>
      gl_onResizeStart gst i w h = gst) \<and>
   (i \<notin> li_i ` set (ugl_layout ust) \<longrightarrow>
      ugl_onDragStart ust i x y = (ust, None) \<and>
      ugl_onDrag core c cols pc ust i x y = ust \<and>
      ugl_onDragStop core c cols pc ust i x y = ust \<and>
      ugl_onResizeStart ust i = (ust, None))"
proof (intro conjI impI)
  assume "i \<notin> li_i ` set (internalLayout gst)"
  then have n: "getLayoutItem (internalLayout gst) i = None" by (rule getLayoutItem_absent)
  show "gl_onDragStart gst i x y = gst" using n by (simp add: gl_onDragStart_def)
  show "gl_onDrag core c cols gst i x y = gst" using n by (simp add: gl_onDrag_def)
  show "gl_onDragStop core c cols gst i x y = gst"
    using n by (simp add: gl_onDragStop_def split: option.splits)
  show "gl_onResizeStart gst i w h = gst" using n by (simp add: gl_onResizeStart_def)
next
  assume "i \<notin> li_i ` set (ugl_layout ust)"
  then have n: "getLayoutItem (ugl_layout ust) i = None" by (rule getLayoutItem_absent)
  show "ugl_onDragStart ust i x y = (ust, None)" using n by (simp add: ugl_onDragStart_def)
  show "ugl_onDrag core c cols pc ust i x y = ust" using n by (simp add: ugl_onDrag_def)
  show "ugl_onDragStop core c cols pc ust i x y = ust" using n by (simp add: ugl_onDragStop_def)
  show "ugl_onResizeStart ust i = (ust, None)" using n by (simp add: ugl_onResizeStart_def)
qed

theorem unknown_item_witness:
  "''zz'' \<notin> li_i ` set (internalLayout exampleDraggingState) \<and>
   ''zz'' \<notin> li_i ` set (ugl_layout exampleUglState) \<and>
   gl_onDragStart exampleDraggingState ''zz'' 1 1 = exampleDraggingState \<and>
   gl_onDrag exampleCore verticalCompactor 12 exampleDraggingState ''zz'' 1 1
     = exampleDraggingState \<and>
   gl_onDragStop exampleCore verticalCompactor 12 exampleDraggingState ''zz'' 1 1
     = exampleDraggingState \<and>
   gl_onResizeStart exampleDraggingState ''zz'' 1 1 = exampleDraggingState \<and>
   ugl_onDragStart exampleUglState ''zz'' 1 1 = (exampleUglState, None) \<and>
   ugl_onDrag exampleCore verticalCompactor 12 False exampleUglState ''zz'' 1 1
     = exampleUglState \<and>
   ugl_onDragStop exampleCore verticalCompactor 12 False exampleUglState ''zz'' 1 1
     = exampleUglState \<and>
   ugl_onResizeStart exampleUglState ''zz'' = (exampleUglState, None)"
proof -
  have g: "''zz'' \<notin> li_i ` set (internalLayout exampleDraggingState)"
    by (simp add: exampleDraggingState_def gl_onDragStart_def exampleGridState_def
          exampleLayout_def getLayoutItem_def mkItem_def)
  have u: "''zz'' \<notin> li_i ` set (ugl_layout exampleUglState)"
    by (simp add: exampleUglState_def exampleLayout_def mkItem_def)
  from unknown_item_is_noop
         [of "''zz''" exampleDraggingState 1 1 exampleCore verticalCompactor 12 1 1
             exampleUglState False]
       g u
  show ?thesis by blast
qed

text \<open>
  Claim C5. A static item is neither draggable nor resizable, whatever the
  per-item flags and the grid-level configuration say. For an item that is
  not static a boolean per-item flag decides, and the grid-level \<open>enabled\<close>
  setting is used only when the per-item flag is absent.
\<close>

theorem item_policy_static_then_override:
  "(static item \<longrightarrow> \<not> isItemDraggable dc item \<and> \<not> isItemResizable rc item) \<and>
   (\<not> static item \<longrightarrow>
      (isDraggable item = Some bd \<longrightarrow> isItemDraggable dc item = bd) \<and>
      (isDraggable item = None \<longrightarrow> isItemDraggable dc item = drag_enabled dc) \<and>
      (isResizable item = Some br \<longrightarrow> isItemResizable rc item = br) \<and>
      (isResizable item = None \<longrightarrow> isItemResizable rc item = resize_enabled rc))"
  by (simp add: isItemDraggable_def isItemResizable_def)

theorem item_policy_witness:
  "\<not> isItemDraggable \<lparr>drag_enabled = True\<rparr>
       ((mkItem ''a'' 0 0 2 2)\<lparr>static := True, isDraggable := Some True\<rparr>) \<and>
   \<not> isItemResizable \<lparr>resize_enabled = True\<rparr>
       ((mkItem ''a'' 0 0 2 2)\<lparr>static := True, isDraggable := Some True\<rparr>) \<and>
   isItemDraggable \<lparr>drag_enabled = False\<rparr> ((mkItem ''b'' 0 0 2 2)\<lparr>isDraggable := Some True\<rparr>) \<and>
   isItemResizable \<lparr>resize_enabled = True\<rparr> ((mkItem ''b'' 0 0 2 2)\<lparr>isDraggable := Some True\<rparr>)"
  using item_policy_static_then_override
          [of "(mkItem ''a'' 0 0 2 2)\<lparr>static := True, isDraggable := Some True\<rparr>"
              "\<lparr>drag_enabled = True\<rparr>" "\<lparr>resize_enabled = True\<rparr>" True True]
        item_policy_static_then_override
          [of "(mkItem ''b'' 0 0 2 2)\<lparr>isDraggable := Some True\<rparr>"
              "\<lparr>drag_enabled = False\<rparr>" "\<lparr>resize_enabled = True\<rparr>" True True]
  by (simp add: mkItem_def)

text \<open>
  Claim C6. For the handles \<open>w\<close>, \<open>nw\<close> and \<open>sw\<close>,
  \<open>calculateResizePosition\<close> returns \<open>x = item.x - (newW - item.w)\<close>, so
  that \<open>x + newW\<close> is the right edge \<open>item.x + item.w\<close>; for \<open>n\<close>, \<open>nw\<close>
  and \<open>ne\<close> it returns \<open>y = item.y - (newH - item.h)\<close>, so that \<open>y + newH\<close>
  is the bottom edge. For every other handle the coordinate is undefined,
  and for \<open>s\<close>, \<open>e\<close> and \<open>se\<close> the resize handler hands \<open>resizeElement\<close>
  no position at all.
\<close>

theorem resize_position_keeps_opposite_edge:
  "(handle \<in> {HW, HNW, HSW} \<longrightarrow>
      (\<exists>x. fst (calculateResizePosition item newW newH handle) = Some x \<and>
           x = li_x item - (newW - li_w item) \<and> x + newW = li_x item + li_w item)) \<and>
   (handle \<in> {HN, HNW, HNE} \<longrightarrow>
      (\<exists>y. snd (calculateResizePosition item newW newH handle) = Some y \<and>
           y = li_y item - (newH - li_h item) \<and> y + newH = li_y item + li_h item)) \<and>
   (handle \<notin> {HW, HNW, HSW} \<longrightarrow> fst (calculateResizePosition item newW newH handle) = None) \<and>
   (handle \<notin> {HN, HNW, HNE} \<longrightarrow> snd (calculateResizePosition item newW newH handle) = None) \<and>
   (handle \<in> {HS, HE, HSE} \<longrightarrow>
      gl_resized core c cols current item newW newH handle =
        compact c
          (correctBounds
             (resizeElement core current item newW newH None None True
                (preventCollisionOf c) (ctype c) cols (allowOverlap c))
             cols)
          cols)"
  by (auto simp: calculateResizePosition_def westHandle_def northHandle_def Let_def
        gl_resized_def)

theorem resize_position_witness:
  "HNW \<in> {HW, HNW, HSW} \<and> HNW \<in> {HN, HNW, HNE} \<and>
   HSE \<notin> {HW, HNW, HSW} \<and> HSE \<notin> {HN, HNW, HNE} \<and> HSE \<in> {HS, HE, HSE} \<and>
   calculateResizePosition (mkItem ''a'' 4 3 2 2) 5 4 HNW = (Some 1, Some 1) \<and>
   (1::int) + 5 = 4 + 2 \<and> (1::int) + 4 = 3 + 2 \<and>
   calculateResizePosition (mkItem ''a'' 4 3 2 2) 5 4 HSE = (None, None) \<and>
   gl_resized exampleCore verticalCompactor 12 exampleLayout (mkItem ''a'' 4 3 2 2) 5 4 HSE =
     compact verticalCompactor
       (correctBounds
          (resizeElement exampleCore exampleLayout (mkItem ''a'' 4 3 2 2) 5 4 None None True
             (preventCollisionOf verticalCompactor) (ctype verticalCompactor) 12
             (allowOverlap verticalCompactor))
          12)
       12"
  using resize_position_keeps_opposite_edge
          [of HNW "mkItem ''a'' 4 3 2 2" 5 4 exampleCore verticalCompactor 12 exampleLayout]
        resize_position_keeps_opposite_edge
          [of HSE "mkItem ''a'' 4 3 2 2" 5 4 exampleCore verticalCompactor 12 exampleLayout]
  by (simp add: mkItem_def prod_eq_iff)

text \<open>
  Claim C7, evaluated on the composable. The only item has \<open>minW = 2\<close> and
  \<open>minH = 2\<close>; \<open>onResize("a", 1, 1)\<close> of \<open>useGridLayout\<close> with twelve columns
  and the vertical compactor commits the item with \<open>w = 1\<close> and \<open>h = 1\<close>,
  below both minimums: this handler clamps the size to the grid only.
\<close>

theorem resize_below_minimum_committed:
  "map (\<lambda>l. (li_i l, li_w l, li_h l, minW l, minH l))
     (ugl_layout (ugl_onResize verticalCompactor 12 boundedUglState ''a'' 1 1 None None)) =
   [(''a'', 1, 1, Some 2, Some 2)]"
  by code_simp

text \<open>
  Claim C8. When the watcher of the responsive component changes the
  breakpoint, the layout that \<open>findOrGenerateResponsiveLayout\<close> returns is
  passed through \<open>correctBounds\<close> and then through \<open>compact\<close>, both with the
  new column count; the result is the new current layout, it is stored
  under the new breakpoint, and it is emitted with \<open>layoutChange\<close> and
  \<open>update:layouts\<close>.
\<close>

theorem breakpoint_change_normalizes_layout:
  assumes "rg_watcher core c st props = Inr st'"
    and "currentBreakpoint st' \<noteq> currentBreakpoint st"
  shows "currentLayout st' =
           normalizedFor core c st (p_breakpoints props) (currentBreakpoint st') (currentCols st') \<and>
         internalLayouts st' (currentBreakpoint st') = Some (currentLayout st') \<and>
         (\<exists>before after.
            rg_emitted st' =
              rg_emitted st @ before @
              [EmLayoutsChange (currentLayout st') (internalLayouts st'),
               EmUpdateLayouts (internalLayouts st')] @ after)"
proof -
  from rg_watcher_Inr[OF assms] obtain bp n where
    st': "st' = (rg_breakpointChange core c st (p_breakpoints props) bp n)
           \<lparr>rg_emitted := rg_emitted (rg_breakpointChange core c st (p_breakpoints props) bp n) @
              [EmWidthChange (p_width props) (p_margin props bp) n
                 (case p_containerPadding props of None \<Rightarrow> None | Some f \<Rightarrow> Some (f bp))],
            rg_prevWidth := p_width props,
            rg_prevBreakpointProp := p_breakpoint props,
            rg_prevBreakpoints := p_breakpoints props,
            rg_prevColsConfig := p_cols props\<rparr>" by blast
  have bp: "currentBreakpoint st' = bp" and n: "currentCols st' = n"
    unfolding st' by (simp_all add: rg_breakpointChange_eq)
  have l: "currentLayout st' = normalizedFor core c st (p_breakpoints props) bp n"
    unfolding st' by (simp add: rg_breakpointChange_eq)
  have m: "internalLayouts st' =
      (preservedLayouts st)(bp \<mapsto> normalizedFor core c st (p_breakpoints props) bp n)"
    unfolding st' by (simp add: rg_breakpointChange_eq)
  have e: "rg_emitted st' = rg_emitted st @ [EmBreakpointChange bp n] @
      [EmLayoutsChange (currentLayout st') (internalLayouts st'),
       EmUpdateLayouts (internalLayouts st')] @
      [EmWidthChange (p_width props) (p_margin props bp) n
         (case p_containerPadding props of None \<Rightarrow> None | Some f \<Rightarrow> Some (f bp))]"
    unfolding l m unfolding st' by (simp add: rg_breakpointChange_eq)
  show ?thesis
  proof (intro conjI)
    show "currentLayout st' =
           normalizedFor core c st (p_breakpoints props) (currentBreakpoint st') (currentCols st')"
      using l bp n by simp
    show "internalLayouts st' (currentBreakpoint st') = Some (currentLayout st')"
      using l m bp by simp
    show "\<exists>before after.
            rg_emitted st' =
              rg_emitted st @ before @
              [EmLayoutsChange (currentLayout st') (internalLayouts st'),
               EmUpdateLayouts (internalLayouts st')] @ after"
      using e by blast
  qed
qed

theorem breakpoint_change_witness:
  "\<exists>st'. rg_watcher exampleCore verticalCompactor exampleResponsiveGridState (exampleProps 800)
            = Inr st' \<and>
         currentBreakpoint st' \<noteq> currentBreakpoint exampleResponsiveGridState \<and>
         currentBreakpoint st' = ''sm'' \<and> currentCols st' = 6 \<and>
         currentLayout st' =
           normalizedFor exampleCore verticalCompactor exampleResponsiveGridState
             exampleBreakpoints ''sm'' 6 \<and>
         internalLayouts st' ''sm'' = Some (currentLayout st')"
proof -
  let ?st' = "(rg_breakpointChange exampleCore verticalCompactor exampleResponsiveGridState
             exampleBreakpoints ''sm'' 6)
          \<lparr>rg_emitted := rg_emitted (rg_breakpointChange exampleCore verticalCompactor
                exampleResponsiveGridState exampleBreakpoints ''sm'' 6) @
              [EmWidthChange 800 (10, 10) 6 None],
           rg_prevWidth := 800,
           rg_prevBreakpointProp := None,
           rg_prevBreakpoints := exampleBreakpoints,
           rg_prevColsConfig := exampleCols\<rparr>"
  have bp: "currentBreakpoint ?st' = ''sm''" and n: "currentCols ?st' = 6"
    by (simp_all add: rg_breakpointChange_eq)
  have neq: "currentBreakpoint ?st' \<noteq> currentBreakpoint exampleResponsiveGridState"
    by (simp add: rg_breakpointChange_eq exampleResponsiveGridState_def)
  have p: "p_breakpoints (exampleProps 800) = exampleBreakpoints"
    by (simp add: exampleProps_def)
  from breakpoint_change_normalizes_layout[OF rg_watcher_example neq]
  have "currentLayout ?st' =
           normalizedFor exampleCore verticalCompactor exampleResponsiveGridState
             exampleBreakpoints ''sm'' 6 \<and>
        internalLayouts ?st' ''sm'' = Some (currentLayout ?st')"
    unfolding bp n p by blast
  with rg_watcher_example neq bp n show ?thesis by blast
qed

text \<open>
  Claim C9. The placeholder of a drag lives in \<open>activeDrag\<close> (component)
  and \<open>dragState\<close> (composable) only. Starting a drag leaves the layout as
  it is; the layout after a drag update or stop does not depend on the
  placeholder and is the compacted output of \<open>moveElement\<close> on the layout
  before; \<open>update:layout\<close> and \<open>layoutChange\<close> of a stop carry that layout;
  and stopping the drag of an item of the layout resets the placeholder to
  \<open>null\<close>.
\<close>

theorem placeholder_outside_layout:
  "internalLayout (gl_onDragStart gst i x y) = internalLayout gst \<and>
   internalLayout (gl_onDrag core c cols (gst\<lparr>activeDrag := p\<rparr>) i x y) =
     internalLayout (gl_onDrag core c cols gst i x y) \<and>
   (activeDrag gst \<noteq> None \<and> p \<noteq> None \<longrightarrow>
      internalLayout (gl_onDragStop core c cols (gst\<lparr>activeDrag := p\<rparr>) i x y) =
        internalLayout (gl_onDragStop core c cols gst i x y)) \<and>
   (getLayoutItem (internalLayout gst) i = Some l \<longrightarrow>
      internalLayout (gl_onDrag core c cols gst i x y) =
        compactedMove core c cols (preventCollisionOf c) (internalLayout gst) l x y) \<and>
   (getLayoutItem (internalLayout gst) i = Some l \<and> activeDrag gst \<noteq> None \<longrightarrow>
      activeDrag (gl_onDragStop core c cols gst i x y) = None \<and>
      internalLayout (gl_onDragStop core c cols gst i x y) =
        compactedMove core c cols (preventCollisionOf c) (internalLayout gst) l x y \<and>
      (\<forall>changed.
         EmUpdateLayout changed \<in> set (emitted (gl_onDragStop core c cols gst i x y))
           - set (emitted gst) \<or>
         EmLayoutChange changed \<in> set (emitted (gl_onDragStop core c cols gst i x y))
           - set (emitted gst) \<longrightarrow>
         changed = compactedMove core c cols (preventCollisionOf c) (internalLayout gst) l x y)) \<and>
   ugl_layout (fst (ugl_onDragStart ust i x y)) = ugl_layout ust \<and>
   ugl_layout (ugl_onDrag core c cols pc (ust\<lparr>dragState := d\<rparr>) i x y) =
     ugl_layout (ugl_onDrag core c cols pc ust i x y) \<and>
   ugl_layout (ugl_onDragStop core c cols pc (ust\<lparr>dragState := d\<rparr>) i x y) =
     ugl_layout (ugl_onDragStop core c cols pc ust i x y) \<and>
   (getLayoutItem (ugl_layout ust) i = Some m \<longrightarrow>
      ugl_layout (ugl_onDrag core c cols pc ust i x y) =
        compactedMove core c cols pc (ugl_layout ust) m x y \<and>
      ds_activeDrag (dragState (ugl_onDragStop core c cols pc ust i x y)) = None \<and>
      ugl_layout (ugl_onDragStop core c cols pc ust i x y) =
        compactedMove core c cols pc (ugl_layout ust) m x y)"
proof (intro conjI impI allI)
  show "internalLayout (gl_onDragStart gst i x y) = internalLayout gst"
    by (rule gl_onDragStart_layout)
  show "internalLayout (gl_onDrag core c cols (gst\<lparr>activeDrag := p\<rparr>) i x y) =
     internalLayout (gl_onDrag core c cols gst i x y)"
    by (rule gl_onDrag_layout_indep)
  show "ugl_layout (fst (ugl_onDragStart ust i x y)) = ugl_layout ust"
    by (rule ugl_onDragStart_layout)
  show "ugl_layout (ugl_onDrag core c cols pc (ust\<lparr>dragState := d\<rparr>) i x y) =
     ugl_layout (ugl_onDrag core c cols pc ust i x y)"
    by (rule ugl_onDrag_layout_indep)
  show "ugl_layout (ugl_onDragStop core c cols pc (ust\<lparr>dragState := d\<rparr>) i x y) =
     ugl_layout (ugl_onDragStop core c cols pc ust i x y)"
    by (rule ugl_onDragStop_layout_indep)
next
  assume "activeDrag gst \<noteq> None \<and> p \<noteq> None"
  then show "internalLayout (gl_onDragStop core c cols (gst\<lparr>activeDrag := p\<rparr>) i x y) =
        internalLayout (gl_onDragStop core c cols gst i x y)"
    by (simp add: gl_onDragStop_layout_indep)
next
  assume f: "getLayoutItem (internalLayout gst) i = Some l"
  show "internalLayout (gl_onDrag core c cols gst i x y) =
        compactedMove core c cols (preventCollisionOf c) (internalLayout gst) l x y"
    by (simp add: gl_onDrag_found[OF f])
next
  assume "getLayoutItem (internalLayout gst) i = Some l \<and> activeDrag gst \<noteq> None"
  then obtain q where f: "getLayoutItem (internalLayout gst) i = Some l"
    and a: "activeDrag gst = Some q" by auto
  show "activeDrag (gl_onDragStop core c cols gst i x y) = None"
    by (simp add: gl_onDragStop_found[OF f a])
  show "internalLayout (gl_onDragStop core c cols gst i x y) =
        compactedMove core c cols (preventCollisionOf c) (internalLayout gst) l x y"
    by (simp add: gl_onDragStop_found[OF f a])
  fix changed
  assume "EmUpdateLayout changed \<in> set (emitted (gl_onDragStop core c cols gst i x y))
           - set (emitted gst) \<or>
         EmLayoutChange changed \<in> set (emitted (gl_onDragStop core c cols gst i x y))
           - set (emitted gst)"
  then show "changed = compactedMove core c cols (preventCollisionOf c) (internalLayout gst) l x y"
    by (cases "oldLayout gst") (auto simp: gl_onDragStop_found[OF f a] split: if_splits)
next
  assume f: "getLayoutItem (ugl_layout ust) i = Some m"
  show "ugl_layout (ugl_onDrag core c cols pc ust i x y) =
        compactedMove core c cols pc (ugl_layout ust) m x y"
    by (rule ugl_onDrag_found[OF f])
  show "ds_activeDrag (dragState (ugl_onDragStop core c cols pc ust i x y)) = None"
    by (simp add: ugl_onDragStop_found[OF f])
  show "ugl_layout (ugl_onDragStop core c cols pc ust i x y) =
        compactedMove core c cols pc (ugl_layout ust) m x y"
    by (simp add: ugl_onDragStop_found[OF f])
qed

theorem placeholder_witness:
  "getLayoutItem (internalLayout exampleDraggingState) ''a'' = Some (mkItem ''a'' 0 0 2 2) \<and>
   activeDrag exampleDraggingState \<noteq> None \<and>
   getLayoutItem (ugl_layout exampleUglState) ''a'' = Some (mkItem ''a'' 0 0 2 2) \<and>
   activeDrag (gl_onDragStop exampleCore verticalCompactor 12 exampleDraggingState ''a'' 0 5)
     = None \<and>
   internalLayout (gl_onDragStop exampleCore verticalCompactor 12 exampleDraggingState ''a'' 0 5) =
     compactedMove exampleCore verticalCompactor 12 (preventCollisionOf verticalCompactor)
       (internalLayout exampleDraggingState) (mkItem ''a'' 0 0 2 2) 0 5 \<and>
   internalLayout
     (gl_onDragStop exampleCore verticalCompactor 12
        (exampleDraggingState\<lparr>activeDrag := Some (dragPlaceholder None 7 7)\<rparr>) ''a'' 0 5) =
     internalLayout (gl_onDragStop exampleCore verticalCompactor 12 exampleDraggingState ''a'' 0 5) \<and>
   ds_activeDrag (dragState
     (ugl_onDragStop exampleCore verticalCompactor 12 False exampleUglState ''a'' 0 5)) = None"
proof -
  have g: "getLayoutItem (internalLayout exampleDraggingState) ''a'' = Some (mkItem ''a'' 0 0 2 2)"
    by (simp add: exampleDraggingState_def gl_onDragStart_def exampleGridState_def
          exampleLayout_def getLayoutItem_def mkItem_def)
  have a: "activeDrag exampleDraggingState \<noteq> None"
    by (simp add: exampleDraggingState_def gl_onDragStart_def exampleGridState_def
          exampleLayout_def getLayoutItem_def mkItem_def)
  have u: "getLayoutItem (ugl_layout exampleUglState) ''a'' = Some (mkItem ''a'' 0 0 2 2)"
    by (simp add: exampleUglState_def exampleLayout_def getLayoutItem_def mkItem_def)
  have p: "Some (dragPlaceholder None 7 7) \<noteq> None" by simp
  from placeholder_outside_layout
         [of exampleDraggingState "''a''" 0 5 exampleCore verticalCompactor 12
             "Some (dragPlaceholder None 7 7)" "mkItem ''a'' 0 0 2 2" exampleUglState False
             "dragState exampleUglState" "mkItem ''a'' 0 0 2 2"]
       g a u p
  show ?thesis by blast
qed

text \<open>
  Claim C10. When the width watcher of \<open>useResponsiveLayout\<close> returns and
  the new width resolves to the current breakpoint, then breakpoint, column
  count and layouts are unchanged and at most \<open>onWidthChange\<close> has been
  called. In every case breakpoint and column count are either both
  unchanged or the pair resolved from the new width.
\<close>

theorem width_change_within_breakpoint:
  assumes "url_widthWatcher core c breakpoints colsConfig st newWidth = Inr st'"
  shows "(getBreakpointFromWidth breakpoints newWidth = Inr (url_breakpoint st) \<longrightarrow>
            url_breakpoint st' = url_breakpoint st \<and> url_cols st' = url_cols st \<and>
            url_layouts st' = url_layouts st \<and>
            (url_called st' = url_called st \<or>
             (\<exists>n. url_called st' = url_called st @ [WidthChange newWidth (10, 10) n None]))) \<and>
         ((url_breakpoint st' = url_breakpoint st \<and> url_cols st' = url_cols st) \<or>
          (getBreakpointFromWidth breakpoints newWidth = Inr (url_breakpoint st') \<and>
           getColsFromBreakpoint (url_breakpoint st') colsConfig = Inr (url_cols st')))"
  using assms
  by (auto simp: url_widthWatcher_def Let_def split: if_splits sum.splits)

theorem width_change_witness:
  "\<exists>st'. url_widthWatcher exampleCore verticalCompactor exampleBreakpoints exampleCols
            exampleResponsiveState 1300 = Inr st' \<and>
         getBreakpointFromWidth exampleBreakpoints 1300 = Inr (url_breakpoint exampleResponsiveState) \<and>
         url_breakpoint st' = ''lg'' \<and> url_cols st' = 12 \<and>
         url_layouts st' = url_layouts exampleResponsiveState \<and>
         url_called st' = [WidthChange 1300 (10, 10) 12 None]"
proof -
  let ?st' = "exampleResponsiveState\<lparr>url_prevWidth := 1300,
                url_called := [WidthChange 1300 (10, 10) 12 None]\<rparr>"
  have r: "url_widthWatcher exampleCore verticalCompactor exampleBreakpoints exampleCols
             exampleResponsiveState 1300 = Inr ?st'"
    by (simp add: url_widthWatcher_def exampleResponsiveState_def exampleBreakpoints_def
          exampleCols_def getBreakpointFromWidth_def getColsFromBreakpoint_def Let_def)
  have b: "getBreakpointFromWidth exampleBreakpoints 1300 =
             Inr (url_breakpoint exampleResponsiveState)"
    by (simp add: exampleResponsiveState_def exampleBreakpoints_def getBreakpointFromWidth_def)
  from width_change_within_breakpoint[OF r] b
  have "url_breakpoint ?st' = url_breakpoint exampleResponsiveState \<and>
        url_cols ?st' = url_cols exampleResponsiveState \<and>
        url_layouts ?st' = url_layouts exampleResponsiveState" by blast
  moreover have "url_breakpoint exampleResponsiveState = ''lg''"
    "url_cols exampleResponsiveState = 12" "url_called ?st' = [WidthChange 1300 (10, 10) 12 None]"
    by (simp_all add: exampleResponsiveState_def)
  ultimately show ?thesis using r b by auto
qed

end
